theory Spec2Isabelle
  imports Main
begin

section \<open>Moldovan company registry parser (datasets/md/companies/parse.py)\<close>

text \<open>
  A Python \<open>str\<close> is modelled as the list of its code points, each of them a HOL
  \<open>char\<close>, so the model covers the code points below 256; \<open>length\<close> is Python's
  \<open>len\<close>. In that range the decimal digits of \<open>\d\<close> are \<open>0\<close> to \<open>9\<close> and the
  white space of \<open>str.strip()\<close> is the set given by \<open>isspace\<close> below.
\<close>

subsection \<open>String primitives of the Python library\<close>

text \<open>\<open>s.startswith(p)\<close>.\<close>

fun startswith :: "string \<Rightarrow> string \<Rightarrow> bool" where
  "startswith s [] = True"
| "startswith [] (p # ps) = False"
| "startswith (c # cs) (p # ps) = (c = p \<and> startswith cs ps)"

text \<open>\<open>sub in s\<close> for strings: some suffix of \<open>s\<close> starts with \<open>sub\<close>.\<close>

fun contains :: "string \<Rightarrow> string \<Rightarrow> bool" where
  "contains [] sub = (sub = [])"
| "contains (c # cs) sub = (startswith (c # cs) sub \<or> contains cs sub)"

text \<open>
  \<open>s.split(sep)\<close> for a non-empty separator: the pieces between the leftmost,
  non-overlapping occurrences of \<open>sep\<close>. \<open>cur\<close> holds the piece being read.
  (Python raises ValueError on an empty separator; the source only passes the
  two-character literals.)
\<close>

fun split_from :: "string \<Rightarrow> string \<Rightarrow> string \<Rightarrow> string list" where
  "split_from sep cur [] = [cur]"
| "split_from sep cur (c # cs) =
     (if sep \<noteq> [] \<and> startswith (c # cs) sep
      then cur # split_from sep [] (drop (length sep) (c # cs))
      else split_from sep (cur @ [c]) cs)"

definition split :: "string \<Rightarrow> string \<Rightarrow> string list" where
  "split s sep = split_from sep [] s"

text \<open>\<open>sep.join(pieces)\<close>.\<close>

fun join :: "string \<Rightarrow> string list \<Rightarrow> string" where
  "join sep [] = []"
| "join sep [p] = p"
| "join sep (p # q # ps) = p @ sep @ join sep (q # ps)"

text \<open>
  \<open>s.rsplit(c, 1)\<close> for a one-character separator: \<open>Some (before, after)\<close> around
  the last occurrence of \<open>c\<close>, \<open>None\<close> when \<open>c\<close> does not occur (Python then returns
  the one-element list \<open>[s]\<close>).
\<close>

fun rsplit1 :: "string \<Rightarrow> char \<Rightarrow> (string \<times> string) option" where
  "rsplit1 [] c = None"
| "rsplit1 (x # xs) c =
     (case rsplit1 xs c of
        Some (a, b) \<Rightarrow> Some (x # a, b)
      | None \<Rightarrow> if x = c then Some ([], xs) else None)"

text \<open>\<open>s.replace(c, "")\<close> for a one-character \<open>c\<close>: every occurrence is removed.\<close>

definition replace_empty :: "string \<Rightarrow> char \<Rightarrow> string" where
  "replace_empty s c = filter (\<lambda>x. x \<noteq> c) s"

text \<open>The characters \<open>str.isspace\<close> accepts, among the code points below 256.\<close>

definition isspace :: "char \<Rightarrow> bool" where
  "isspace c = (c \<in> set [CHR 0x09, CHR 0x0A, CHR 0x0B, CHR 0x0C, CHR 0x0D,
                          CHR 0x1C, CHR 0x1D, CHR 0x1E, CHR 0x1F, CHR 0x20,
                          CHR 0x85, CHR 0xA0])"

definition strip :: "string \<Rightarrow> string" where
  "strip s = rev (dropWhile isspace (rev (dropWhile isspace s)))"

text \<open>\<open>str(n)\<close> for a non-negative integer, and for any integer.\<close>

fun str_nat :: "nat \<Rightarrow> string" where
  "str_nat n =
     (if n < 10 then [''0123456789'' ! n]
      else str_nat (n div 10) @ [''0123456789'' ! (n mod 10)])"

declare str_nat.simps [simp del]

definition str_int :: "int \<Rightarrow> string" where
  "str_int i = (if i < 0 then CHR ''-'' # str_nat (nat (- i)) else str_nat (nat i))"

subsection \<open>Cell values, dictionaries, entities and the crawler context\<close>

text \<open>
  The value of a spreadsheet cell (\<open>Any\<close> in the source): \<open>None\<close>, a \<open>str\<close>, an
  \<open>int\<close>, a \<open>bool\<close> (an \<open>int\<close> for \<open>isinstance\<close>), or a value of another type
  (float, datetime), kept as the text \<open>str()\<close> gives for it.
\<close>

datatype cell = CNone | CStr string | CInt int | CBool bool | COther string

text \<open>\<open>str(v)\<close>, which is also what an f-string field \<open>{v}\<close> and \<open>%r\<close> of an int print.\<close>

fun str_cell :: "cell \<Rightarrow> string" where
  "str_cell CNone = ''None''"
| "str_cell (CStr s) = s"
| "str_cell (CInt i) = str_int i"
| "str_cell (CBool b) = (if b then ''True'' else ''False'')"
| "str_cell (COther r) = r"

text \<open>
  A \<open>dict\<close> with string keys, in insertion order and without duplicate keys.
  \<open>pop k d\<close> is \<open>d.pop(k)\<close>: \<open>None\<close> stands for KeyError, otherwise the value and
  the dictionary without the key. \<open>pop_default\<close> is \<open>d.pop(k, default)\<close>.
\<close>

type_synonym pydict = "(string \<times> cell) list"

definition pop :: "pydict \<Rightarrow> string \<Rightarrow> (cell \<times> pydict) option" where
  "pop d k =
     (case map_of d k of
        None \<Rightarrow> None
      | Some v \<Rightarrow> Some (v, filter (\<lambda>kv. fst kv \<noteq> k) d))"

definition pop_default :: "pydict \<Rightarrow> string \<Rightarrow> cell \<Rightarrow> cell \<times> pydict" where
  "pop_default d k dflt =
     (case pop d k of None \<Rightarrow> (dflt, d) | Some r \<Rightarrow> r)"

text \<open>\<open>d[k] = v\<close> and \<open>dict(pairs)\<close>: a later pair overwrites the value of its key.\<close>

fun setitem :: "pydict \<Rightarrow> string \<Rightarrow> cell \<Rightarrow> pydict" where
  "setitem [] k v = [(k, v)]"
| "setitem ((k', v') # d) k v =
     (if k' = k then (k, v) # d else (k', v') # setitem d k v)"

definition dict :: "(string \<times> cell) list \<Rightarrow> pydict" where
  "dict pairs = foldl (\<lambda>d kv. setitem d (fst kv) (snd kv)) [] pairs"

text \<open>
  An entity of the toolkit: its schema, its id and, in order, the calls of
  \<open>add(prop, value)\<close> made on it, each with the raw value the parser handed over.
  Whether the toolkit keeps a value (it drops \<open>None\<close> and what it cannot
  normalise) is its own business: \<open>keeps\<close> below. A role or country that is
  absent is the value \<open>None\<close> handed to \<open>add\<close>.
\<close>

record Entity =
  schema :: string
  eid :: "string option"
  props :: "(string \<times> cell) list"

definition add :: "Entity \<Rightarrow> string \<Rightarrow> cell \<Rightarrow> Entity" where
  "add e prop v = e\<lparr>props := props e @ [(prop, v)]\<rparr>"

text \<open>An entity id handed on as a value: \<open>None\<close> stays \<open>None\<close>.\<close>

definition id_cell :: "string option \<Rightarrow> cell" where
  "id_cell i = (case i of None \<Rightarrow> CNone | Some s \<Rightarrow> CStr s)"

text \<open>An element of a parsed HTML document (lxml): tag, attributes, child elements.\<close>

datatype element = Element (tag: string) (attrib: "(string \<times> string) list") (children: "element list")

datatype error =
    KeyError string
  | AttributeError
  | TypeError
  | ValueError
  | AssertionError
  | OverflowError
  | RuntimeError string
  | FetchError

datatype level = Info | Warn | Warning | Error

datatype log_entry = Log level string "(string \<times> cell) list"

text \<open>
  The crawler context. The collaborators that are not part of this repository are
  fields of it and stay arbitrary:
  \<^item> \<open>dataset_url\<close>: \<open>context.dataset.url\<close>;
  \<^item> \<open>pages\<close>: the document that fetching a URL and parsing the file as HTML gives,
    \<open>None\<close> when the fetch fails;
  \<^item> \<open>make_id\<close>: \<open>context.make_id(*parts)\<close>, a stable id or \<open>None\<close>;
  \<^item> \<open>accepts\<close>: whether an entity of a schema keeps a value added to a property
    other than its name (a country code, for one).
  The effects are the other fields: the entities emitted, the log lines written and
  the calls of \<open>audit_data\<close>, each in order.
\<close>

record Context =
  dataset_url :: "string option"
  pages :: "string \<Rightarrow> element option"
  make_id :: "cell list \<Rightarrow> string option"
  accepts :: "string \<Rightarrow> string \<Rightarrow> cell \<Rightarrow> bool"
  emitted :: "Entity list"
  log :: "log_entry list"
  audited :: "(pydict \<times> string list) list"

text \<open>What a call does: it returns a value or raises, and leaves a context.\<close>

datatype 'a outcome = Returns 'a Context | Raises error Context

text \<open>The context a call leaves.\<close>

fun context_of :: "'a outcome \<Rightarrow> Context" where
  "context_of (Returns v c) = c"
| "context_of (Raises e c) = c"

text \<open>\<open>context.make(schema)\<close>: a fresh entity, and the calls made on the context.\<close>

definition make_entity :: "string \<Rightarrow> Entity" where
  "make_entity s = \<lparr>schema = s, eid = None, props = []\<rparr>"

text \<open>
  Modelled from the spec: the toolkit keeps a name exactly when it is a string that
  is not empty (a founder or owner is skipped ``if resulting name is empty''). What
  it keeps of any other property is the parameter \<open>accepts\<close>.
\<close>

definition keeps :: "Context \<Rightarrow> string \<Rightarrow> string \<Rightarrow> cell \<Rightarrow> bool" where
  "keeps context s prop v =
     (if prop = ''name'' then (case v of CStr n \<Rightarrow> n \<noteq> [] | _ \<Rightarrow> False)
      else accepts context s prop v)"

text \<open>\<open>entity.has(prop)\<close>: the entity keeps a value of one of the calls of \<open>add\<close>.\<close>

definition has :: "Context \<Rightarrow> Entity \<Rightarrow> string \<Rightarrow> bool" where
  "has context e prop =
     list_ex (\<lambda>pv. fst pv = prop \<and> keeps context (schema e) prop (snd pv)) (props e)"

definition emit :: "Context \<Rightarrow> Entity \<Rightarrow> Context" where
  "emit context e = context\<lparr>emitted := emitted context @ [e]\<rparr>"

definition write_log :: "Context \<Rightarrow> log_entry \<Rightarrow> Context" where
  "write_log context l = context\<lparr>log := log context @ [l]\<rparr>"

definition audit_data :: "Context \<Rightarrow> pydict \<Rightarrow> string list \<Rightarrow> Context" where
  "audit_data context data ignore = context\<lparr>audited := audited context @ [(data, ignore)]\<rparr>"

subsection \<open>Directors, founders and beneficial owners of a company\<close>

text \<open>
  The first steps of the loop body of \<open>parse_directors\<close>, for one piece of the
  field: the \<open>try\<close> block (\<open>rsplit\<close> gives one piece only when there is no bracket,
  the unpacking raises ValueError and \<open>role\<close> stays \<open>None\<close>) and the \<open>strip\<close>.
\<close>

definition split_role :: "string \<Rightarrow> string \<times> cell" where
  "split_role director0 =
     (let (director1, role) =
            (case rsplit1 director0 CHR ''['' of
               Some (d, r) \<Rightarrow> (d, CStr (strip (replace_empty r CHR '']'')))
             | None \<Rightarrow> (director0, CNone))
      in (strip director1, role))"

text \<open>The loop body of \<open>parse_directors\<close>.\<close>

definition parse_director :: "Context \<Rightarrow> Entity \<Rightarrow> string \<Rightarrow> Context" where
  "parse_director context company director0 =
     (let (director, role) = split_role director0
      in if length director < 3 then context
         else
           let dir = make_entity ''LegalEntity'';
               dir = dir\<lparr>eid := make_id context [id_cell (eid company), CStr director]\<rparr>;
               dir = add dir ''name'' (CStr director);
               context = emit context dir;
               dship = make_entity ''Directorship'';
               dship = dship\<lparr>eid := make_id context
                         [CStr ''Directorship'', id_cell (eid company), CStr director, role]\<rparr>;
               dship = add dship ''organization'' (id_cell (eid company));
               dship = add dship ''director'' (id_cell (eid dir));
               dship = add dship ''role'' role
           in emit context dship)"

fun directors_loop :: "Context \<Rightarrow> Entity \<Rightarrow> string list \<Rightarrow> Context" where
  "directors_loop context company [] = context"
| "directors_loop context company (director # rest) =
     directors_loop (parse_director context company director) company rest"

text \<open>A value that is neither \<open>None\<close> nor a \<open>str\<close> has no \<open>split\<close>: AttributeError.\<close>

definition parse_directors :: "Context \<Rightarrow> Entity \<Rightarrow> cell \<Rightarrow> unit outcome" where
  "parse_directors context company directors =
     (case directors of
        CNone \<Rightarrow> Returns () context
      | CStr s \<Rightarrow> Returns () (directors_loop context company (split s ''],''))
      | _ \<Rightarrow> Raises AttributeError context)"

text \<open>
  The first steps of the loop body of \<open>parse_founders\<close>: every \<open>)\<close> is removed,
  the text after the last \<open>(\<close> is the percentage, the name is stripped. \<open>rsplit1\<close>
  finds a bracket exactly when \<open>"(" in founder\<close> holds, so its \<open>None\<close> is the branch
  that skips the split.
\<close>

definition split_percentage :: "string \<Rightarrow> string \<times> cell" where
  "split_percentage founder0 =
     (let founder1 = replace_empty founder0 CHR '')'';
          (founder2, percentage) =
            (case rsplit1 founder1 CHR ''('' of
               Some (f, p) \<Rightarrow> (f, CStr p)
             | None \<Rightarrow> (founder1, CNone))
      in (strip founder2, percentage))"

text \<open>The loop body of \<open>parse_founders\<close>.\<close>

definition parse_founder :: "Context \<Rightarrow> Entity \<Rightarrow> string \<Rightarrow> Context" where
  "parse_founder context company founder0 =
     (let (founder, percentage) = split_percentage founder0;
          found = make_entity ''LegalEntity'';
          found = found\<lparr>eid := make_id context [id_cell (eid company), CStr founder]\<rparr>;
          found = add found ''name'' (CStr founder)
      in if \<not> has context found ''name'' then context
         else
           let context = emit context found;
               own = make_entity ''Ownership'';
               own = own\<lparr>eid := make_id context
                       [CStr ''Ownership'', id_cell (eid company), CStr founder]\<rparr>;
               own = add own ''asset'' (id_cell (eid company));
               own = add own ''owner'' (id_cell (eid found));
               own = add own ''role'' percentage
           in emit context own)"

fun founders_loop :: "Context \<Rightarrow> Entity \<Rightarrow> string list \<Rightarrow> Context" where
  "founders_loop context company [] = context"
| "founders_loop context company (founder # rest) =
     founders_loop (parse_founder context company founder) company rest"

text \<open>An \<open>int\<close> (a \<open>bool\<close> is one) is logged and left alone.\<close>

definition parse_founders :: "Context \<Rightarrow> Entity \<Rightarrow> cell \<Rightarrow> unit outcome" where
  "parse_founders context company founders =
     (case founders of
        CNone \<Rightarrow> Returns () context
      | CInt i \<Rightarrow>
          Returns () (write_log context (Log Info (''last line: '' @ str_cell founders) []))
      | CBool b \<Rightarrow>
          Returns () (write_log context (Log Info (''last line: '' @ str_cell founders) []))
      | CStr s \<Rightarrow> Returns () (founders_loop context company (split s ''),''))
      | COther r \<Rightarrow> Raises AttributeError context)"

text \<open>
  The loop body of \<open>parse_owners\<close>; name and country are split as name and
  percentage of a founder are.
\<close>

definition parse_owner :: "Context \<Rightarrow> Entity \<Rightarrow> string \<Rightarrow> Context" where
  "parse_owner context company owner0 =
     (let (owner, country) = split_percentage owner0;
          bo = make_entity ''LegalEntity'';
          bo = bo\<lparr>eid := make_id context [id_cell (eid company), CStr owner]\<rparr>;
          bo = add bo ''name'' (CStr owner);
          bo = add bo ''country'' country;
          context =
            (if country \<noteq> CNone \<and> \<not> has context bo ''country''
             then write_log context (Log Warn ''Unknown country code'' [(''country'', country)])
             else context)
      in if \<not> has context bo ''name'' then context
         else
           let context = emit context bo;
               own = make_entity ''Ownership'';
               own = own\<lparr>eid := make_id context
                       [CStr ''Ownership'', id_cell (eid company), CStr owner]\<rparr>;
               own = add own ''asset'' (id_cell (eid company));
               own = add own ''owner'' (id_cell (eid bo));
               own = add own ''role'' (CStr ''beneficiarilor efectivi'')
           in emit context own)"

fun owners_loop :: "Context \<Rightarrow> Entity \<Rightarrow> string list \<Rightarrow> Context" where
  "owners_loop context company [] = context"
| "owners_loop context company (owner # rest) =
     owners_loop (parse_owner context company owner) company rest"

definition parse_owners :: "Context \<Rightarrow> Entity \<Rightarrow> cell \<Rightarrow> unit outcome" where
  "parse_owners context company owners =
     (case owners of
        CNone \<Rightarrow> Returns () context
      | CStr s \<Rightarrow> Returns () (owners_loop context company (split s ''),''))
      | _ \<Rightarrow> Raises AttributeError context)"

subsection \<open>One company row\<close>

text \<open>
  The column labels. They are only compared for equality; a letter of a label that
  lies beyond code point 255 (and, for uniformity, every non-ASCII letter of a
  label) is written as the bytes of its UTF-8 encoding.
\<close>

definition COL_IDNO :: string where
  "COL_IDNO = ''IDNO/ Cod fiscal''"

definition COL_NAME :: string where
  "COL_NAME = ''Denumirea complet'' @ [CHR 0xC4, CHR 0x83]"

definition COL_ADDRESS :: string where
  "COL_ADDRESS = ''Adresa''"

definition COL_INCORPORATION :: string where
  "COL_INCORPORATION = ''Data '' @ [CHR 0xC3, CHR 0xAE] @ ''registr'' @ [CHR 0xC4, CHR 0x83] @ ''rii''"

definition COL_DISSOLUTION :: string where
  "COL_DISSOLUTION = ''Data lichid'' @ [CHR 0xC4, CHR 0x83] @ ''rii''"

definition COL_LEGAL_FORM :: string where
  "COL_LEGAL_FORM = ''Forma org./jurid.''"

definition COL_DIRECTORS :: string where
  "COL_DIRECTORS = ''Lista conduc'' @ [CHR 0xC4, CHR 0x83] @ ''torilor''"

definition COL_FOUNDERS :: string where
  "COL_FOUNDERS = ''Lista fondatorilor''"

definition COL_OWNERS :: string where
  "COL_OWNERS = ''Lista beneficiarilor efectivi''"

definition IGNORE_COLUMNS :: "string list" where
  "IGNORE_COLUMNS =
     [''Codul unit'' @ [CHR 0xC4, CHR 0x83, CHR 0xC5, CHR 0xA3] @ ''ii administrativ-teritoriale'',
      ''Genuri de activitate nelicentiate'',
      ''Genuri de activitate licentiate'']"

text \<open>\<open>data.pop(k)\<close> followed by the rest of the function; KeyError when \<open>k\<close> is missing.\<close>

definition pop_then ::
  "Context \<Rightarrow> pydict \<Rightarrow> string \<Rightarrow> (cell \<Rightarrow> pydict \<Rightarrow> 'a outcome) \<Rightarrow> 'a outcome" where
  "pop_then context data k rest =
     (case pop data k of
        None \<Rightarrow> Raises (KeyError k) context
      | Some (v, data') \<Rightarrow> rest v data')"

text \<open>A call followed by the rest of the function; an exception of the call goes up.\<close>

definition and_then :: "'a outcome \<Rightarrow> (Context \<Rightarrow> 'b outcome) \<Rightarrow> 'b outcome" where
  "and_then r rest = (case r of Raises e c \<Rightarrow> Raises e c | Returns _ c \<Rightarrow> rest c)"

definition parse_company :: "Context \<Rightarrow> pydict \<Rightarrow> unit outcome" where
  "parse_company context data =
     pop_then context data COL_IDNO (\<lambda>idno data.
     pop_then context data COL_NAME (\<lambda>name data.
     pop_then context data COL_ADDRESS (\<lambda>address data.
       let company = make_entity ''Company'';
           company =
             (if idno \<noteq> CNone
              then company\<lparr>eid := Some (''oc-companies-md-'' @ str_cell idno)\<rparr>
              else company\<lparr>eid := make_id context [name, address]\<rparr>)
       in if eid company = None
          then Returns ()
                 (write_log context
                    (Log Error ''Cannot generate key''
                       [(''idno'', idno), (''name'', name), (''address'', address)]))
          else
            let company = add company ''name'' name;
                company = add company ''taxNumber'' idno
            in
            pop_then context data COL_INCORPORATION (\<lambda>incorporation data.
            let company = add company ''incorporationDate'' incorporation in
            pop_then context data COL_DISSOLUTION (\<lambda>dissolution data.
            let company = add company ''dissolutionDate'' dissolution;
                company = add company ''jurisdiction'' (CStr ''md'');
                company = add company ''address'' address
            in
            pop_then context data COL_LEGAL_FORM (\<lambda>legal_form data.
            let company = add company ''legalForm'' legal_form in
            pop_then context data COL_DIRECTORS (\<lambda>directors data.
            and_then (parse_directors context company directors) (\<lambda>context.
            pop_then context data COL_FOUNDERS (\<lambda>founders data.
            and_then (parse_founders context company founders) (\<lambda>context.
            let (owners, data) = pop_default data COL_OWNERS CNone in
            and_then (parse_owners context company owners) (\<lambda>context.
            let context = emit context company
            in Returns () (audit_data context data IGNORE_COLUMNS))))))))))))"

subsection \<open>All rows of the sheet\<close>

text \<open>
  The loop of \<open>parse_companies\<close> over the rows (each the list of its cell values),
  with the headers found so far and the index \<open>enumerate\<close> gives the row.
  \<open>str(cell).split(" (", 1)[0]\<close> is the first piece of the full split.
\<close>

fun rows_loop ::
  "Context \<Rightarrow> string list option \<Rightarrow> nat \<Rightarrow> cell list list \<Rightarrow> unit outcome" where
  "rows_loop context headers idx [] = Returns () context"
| "rows_loop context headers idx (cells # rows) =
     (case headers of
        None \<Rightarrow>
          (if CStr COL_NAME \<in> set cells
           then rows_loop context
                  (Some (map (\<lambda>cell. hd (split (str_cell cell) '' ('')) cells)) (Suc idx) rows
           else rows_loop context None (Suc idx) rows)
      | Some hs \<Rightarrow>
          and_then (parse_company context (dict (zip hs cells))) (\<lambda>context.
            let context =
                  (if idx > 0 \<and> idx mod 10000 = 0
                   then write_log context
                          (Log Info (''Read '' @ str_nat idx @ '' companies...'') [])
                   else context)
            in rows_loop context headers (Suc idx) rows))"

definition parse_companies :: "Context \<Rightarrow> cell list list \<Rightarrow> unit outcome" where
  "parse_companies context rows = rows_loop context None 0 rows"

subsection \<open>The resource locator\<close>

text \<open>\<open>element.get(key)\<close>: the attribute or \<open>None\<close>.\<close>

definition get :: "element \<Rightarrow> string \<Rightarrow> string option" where
  "get e k = map_of (attrib e) k"

text \<open>The elements below an element, in document order.\<close>

fun descendants :: "element \<Rightarrow> element list" where
  "descendants (Element t a cs) = concat (map (\<lambda>c. c # descendants c) cs)"

text \<open>
  \<open>doc.findall('.//li[@class="resource-item"]/a')\<close>: the \<open>a\<close> children of the \<open>li\<close>
  elements below \<open>doc\<close> whose class attribute is exactly \<open>resource-item\<close>.
\<close>

definition resource_anchors :: "element \<Rightarrow> element list" where
  "resource_anchors doc =
     concat (map (\<lambda>li. filter (\<lambda>c. tag c = ''a'') (children li))
               (filter (\<lambda>e. tag e = ''li'' \<and> get e ''class'' = Some ''resource-item'')
                  (descendants doc)))"

text \<open>
  \<open>doc.findall('.//div[@class="actions"]//a')\<close>: the \<open>a\<close> elements below the \<open>div\<close>
  elements below \<open>doc\<close> whose class attribute is exactly \<open>actions\<close>.
\<close>

definition action_anchors :: "element \<Rightarrow> element list" where
  "action_anchors doc =
     concat (map (\<lambda>d. filter (\<lambda>c. tag c = ''a'') (descendants d))
               (filter (\<lambda>e. tag e = ''div'' \<and> get e ''class'' = Some ''actions'')
                  (descendants doc)))"

text \<open>The first loop of \<open>read_ckan\<close>: each anchor overwrites \<open>resource_url\<close>.\<close>

fun resource_loop ::
  "(string \<Rightarrow> string \<Rightarrow> string) \<Rightarrow> string \<Rightarrow> string option \<Rightarrow> element list \<Rightarrow> string option" where
  "resource_loop urljoin url resource_url [] = resource_url"
| "resource_loop urljoin url resource_url (res_anchor # rest) =
     (let res_href = (case get res_anchor ''href'' of None \<Rightarrow> [] | Some h \<Rightarrow> h)
      in resource_loop urljoin url (Some (urljoin url res_href)) rest)"

text \<open>
  \<open>read_ckan\<close>, given \<open>urllib.parse.urljoin\<close>. It returns what \<open>get("href")\<close> gives
  for the first action anchor, which is \<open>None\<close> for an anchor without a href.
\<close>

definition read_ckan ::
  "(string \<Rightarrow> string \<Rightarrow> string) \<Rightarrow> Context \<Rightarrow> error + string option" where
  "read_ckan urljoin context =
     (case dataset_url context of
        None \<Rightarrow> Inl (RuntimeError ''No dataset url'')
      | Some url \<Rightarrow>
          (case pages context url of
             None \<Rightarrow> Inl FetchError
           | Some doc \<Rightarrow>
               (case resource_loop urljoin url None (resource_anchors doc) of
                  None \<Rightarrow> Inl (RuntimeError ''No resource URL on data catalog page!'')
                | Some resource_url \<Rightarrow>
                    (case pages context resource_url of
                       None \<Rightarrow> Inl FetchError
                     | Some doc \<Rightarrow>
                         (case action_anchors doc of
                            [] \<Rightarrow> Inl (RuntimeError ''No data URL on data resource page!'')
                          | action_anchor # _ \<Rightarrow> Inr (get action_anchor ''href''))))))"

subsection \<open>The recency selector\<close>

text \<open>
  The XPath of \<open>get_most_recent_link\<close>, evaluated from the root of the document: the
  \<open>a\<close> elements, in document order and each once, that lie below a \<open>li\<close> whose class
  contains \<open>resource-item\<close>, whose own class contains \<open>resource-url-analytics\<close> and
  whose href contains \<open>.xlsx\<close>. \<open>inside\<close> tells that such a \<open>li\<close> is above; a missing
  attribute is the empty string for \<open>contains()\<close>.
\<close>

definition attr_contains :: "element \<Rightarrow> string \<Rightarrow> string \<Rightarrow> bool" where
  "attr_contains e k sub =
     contains (case get e k of None \<Rightarrow> [] | Some v \<Rightarrow> v) sub"

fun xlsx_links :: "bool \<Rightarrow> element \<Rightarrow> element list" where
  "xlsx_links inside (Element t a cs) =
     (if inside \<and> t = ''a''
         \<and> attr_contains (Element t a cs) ''class'' ''resource-url-analytics''
         \<and> attr_contains (Element t a cs) ''href'' ''.xlsx''
      then [Element t a cs] else [])
     @ concat (map (xlsx_links
                      (inside \<or> (t = ''li'' \<and> attr_contains (Element t a cs) ''class'' ''resource-item'')))
                 cs)"

definition isdigit :: "char \<Rightarrow> bool" where
  "isdigit c = (c \<in> set ''0123456789'')"

text \<open>\<open>re.search(r"resources/2019-\d{2}", href)\<close> finds a match.\<close>

fun search_2019 :: "string \<Rightarrow> bool" where
  "search_2019 [] = False"
| "search_2019 (c # cs) =
     ((startswith (c # cs) ''resources/2019-''
        \<and> (case drop 15 (c # cs) of d1 # d2 # _ \<Rightarrow> isdigit d1 \<and> isdigit d2 | _ \<Rightarrow> False))
      \<or> search_2019 cs)"

text \<open>The pattern \<open>(\d{4})[.](\d{2})[.](\d{2})\<close> matches at the start of the string.\<close>

definition date_at :: "string \<Rightarrow> bool" where
  "date_at s =
     (case s of
        y1 # y2 # y3 # y4 # p1 # m1 # m2 # p2 # d1 # d2 # _ \<Rightarrow>
          isdigit y1 \<and> isdigit y2 \<and> isdigit y3 \<and> isdigit y4 \<and> p1 = CHR ''.''
          \<and> isdigit m1 \<and> isdigit m2 \<and> p2 = CHR ''.'' \<and> isdigit d1 \<and> isdigit d2
      | _ \<Rightarrow> False)"

text \<open>
  \<open>re.search\<close> of that pattern: \<open>group(0)\<close> of the leftmost match, the ten
  characters found, or \<open>None\<close>.
\<close>

fun search_date :: "string \<Rightarrow> string option" where
  "search_date [] = None"
| "search_date (c # cs) =
     (if date_at (c # cs) then Some (take 10 (c # cs)) else search_date cs)"

text \<open>
  A \<open>datetime\<close> without time zone. Python compares two of them field by field, from
  the year down.
\<close>

record datetime =
  year :: nat
  month :: nat
  day :: nat
  hour :: nat
  minute :: nat
  second :: nat
  microsecond :: nat

definition datetime_tuple :: "datetime \<Rightarrow> nat list" where
  "datetime_tuple t = [year t, month t, day t, hour t, minute t, second t, microsecond t]"

fun tuple_less :: "nat list \<Rightarrow> nat list \<Rightarrow> bool" where
  "tuple_less (x # xs) (y # ys) = (x < y \<or> (x = y \<and> tuple_less xs ys))"
| "tuple_less [] (y # ys) = True"
| "tuple_less xs [] = False"

definition datetime_less :: "datetime \<Rightarrow> datetime \<Rightarrow> bool" where
  "datetime_less a b = tuple_less (datetime_tuple a) (datetime_tuple b)"

text \<open>The calendar of the \<open>datetime\<close> module: leap years, month lengths, day numbers.\<close>

definition is_leap :: "nat \<Rightarrow> bool" where
  "is_leap y = (y mod 4 = 0 \<and> (y mod 100 \<noteq> 0 \<or> y mod 400 = 0))"

definition days_in_month :: "nat \<Rightarrow> nat \<Rightarrow> nat" where
  "days_in_month y m =
     (if m = 2 \<and> is_leap y then 29
      else [31, 28, 31, 30, 31, 30, 31, 31, 30, 31, 30, 31] ! (m - 1))"

definition days_before_year :: "nat \<Rightarrow> int" where
  "days_before_year y =
     (let y1 = int y - 1 in y1 * 365 + y1 div 4 - y1 div 100 + y1 div 400)"

definition days_before_month :: "nat \<Rightarrow> nat \<Rightarrow> int" where
  "days_before_month y m =
     [0, 31, 59, 90, 120, 151, 181, 212, 243, 273, 304, 334] ! (m - 1)
     + (if m > 2 \<and> is_leap y then 1 else 0)"

text \<open>\<open>date.toordinal()\<close>: day 1 is 1 January of year 1.\<close>

definition toordinal :: "datetime \<Rightarrow> int" where
  "toordinal t = days_before_year (year t) + days_before_month (year t) (month t) + int (day t)"

text \<open>
  \<open>datetime.strptime(s, "%Y.%m.%d")\<close> on a string of the shape the pattern above
  finds (the only strings the source passes): midnight of that day, or ValueError
  when year, month and day are not a date of the calendar (year 0, month 0 or above
  12, a day the month does not have).
\<close>

definition digit_value :: "char \<Rightarrow> nat" where
  "digit_value c = of_char c - 48"

definition int_of_digits :: "string \<Rightarrow> nat" where
  "int_of_digits ds = foldl (\<lambda>n c. 10 * n + digit_value c) 0 ds"

definition strptime :: "string \<Rightarrow> error + datetime" where
  "strptime s =
     (if \<not> (date_at s \<and> length s = 10) then Inl ValueError
      else
        let y = int_of_digits (take 4 s);
            m = int_of_digits (take 2 (drop 5 s));
            d = int_of_digits (take 2 (drop 8 s))
        in if 1 \<le> y \<and> 1 \<le> m \<and> m \<le> 12 \<and> 1 \<le> d \<and> d \<le> days_in_month y m
           then Inr \<lparr>year = y, month = m, day = d, hour = 0, minute = 0, second = 0,
                     microsecond = 0\<rparr>
           else Inl ValueError)"

text \<open>
  \<open>now - timedelta(days=30) < t\<close>: the day number of the left side is that of \<open>now\<close>
  less 30, its time of day is that of \<open>now\<close>. The subtraction raises OverflowError
  when it leaves the calendar (before day 1).
\<close>

definition within_30_days :: "datetime \<Rightarrow> datetime \<Rightarrow> error + bool" where
  "within_30_days now t =
     (if toordinal now - 30 < 1 then Inl OverflowError
      else Inr (toordinal now - 30 < toordinal t
                \<or> (toordinal now - 30 = toordinal t
                    \<and> tuple_less [hour now, minute now, second now, microsecond now]
                         [hour t, minute t, second t, microsecond t])))"

text \<open>
  The loop of \<open>get_most_recent_link\<close> over the links found. \<open>"..." in None\<close> would be
  a TypeError (the XPath only finds anchors with a href).
\<close>

fun links_loop ::
  "Context \<Rightarrow> (datetime \<times> string) list \<Rightarrow> element list \<Rightarrow> (datetime \<times> string) list outcome" where
  "links_loop context dated_links [] = Returns dated_links context"
| "links_loop context dated_links (link # rest) =
     (case get link ''href'' of
        None \<Rightarrow> Raises TypeError context
      | Some href \<Rightarrow>
          if contains href ''17.06.2024'' \<or> search_2019 href
          then links_loop context dated_links rest
          else
            (case search_date href of
               Some group0 \<Rightarrow>
                 (case strptime group0 of
                    Inl e \<Rightarrow> Raises e context
                  | Inr date_obj \<Rightarrow> links_loop context (dated_links @ [(date_obj, href)]) rest)
             | None \<Rightarrow>
                 links_loop
                   (write_log context
                      (Log Warning (''Link '' @ href @ '' does not contain a date'') []))
                   dated_links rest))"

text \<open>
  \<open>max(items, key=lambda x: x[0])\<close> on a non-empty list: the first item whose date
  no later item exceeds (an item replaces the best one only when it is greater).
\<close>

fun max_from :: "(datetime \<times> string) \<Rightarrow> (datetime \<times> string) list \<Rightarrow> (datetime \<times> string)" where
  "max_from best [] = best"
| "max_from best (x # xs) =
     max_from (if datetime_less (fst best) (fst x) then x else best) xs"

definition get_most_recent_link :: "datetime \<Rightarrow> Context \<Rightarrow> element \<Rightarrow> string outcome" where
  "get_most_recent_link now context doc =
     (case links_loop context [] (xlsx_links False doc) of
        Raises e context \<Rightarrow> Raises e context
      | Returns dated_links context \<Rightarrow>
          (case dated_links of
             [] \<Rightarrow> Raises ValueError context
           | first # others \<Rightarrow>
               let latest_link = max_from first others
               in (case within_30_days now (fst latest_link) of
                     Inl e \<Rightarrow> Raises e context
                   | Inr ok \<Rightarrow>
                       if ok then Returns (snd latest_link) context
                       else Raises AssertionError context)))"

subsection \<open>The records of the data model\<close>

text \<open>
  The records the specification lists (section 3), with the identity rule of each:
  a LegalEntity for a director or founder, the Directorship and the Ownership that
  refer to it, a LegalEntity for a beneficial owner, and the Company of a row.
\<close>

definition legal_entity :: "Context \<Rightarrow> Entity \<Rightarrow> string \<Rightarrow> Entity" where
  "legal_entity context company name =
     \<lparr>schema = ''LegalEntity'',
      eid = make_id context [id_cell (eid company), CStr name],
      props = [(''name'', CStr name)]\<rparr>"

definition directorship :: "Context \<Rightarrow> Entity \<Rightarrow> string \<Rightarrow> cell \<Rightarrow> Entity" where
  "directorship context company name role =
     \<lparr>schema = ''Directorship'',
      eid = make_id context [CStr ''Directorship'', id_cell (eid company), CStr name, role],
      props = [(''organization'', id_cell (eid company)),
               (''director'', id_cell (eid (legal_entity context company name))),
               (''role'', role)]\<rparr>"

definition ownership :: "Context \<Rightarrow> Entity \<Rightarrow> string \<Rightarrow> cell \<Rightarrow> Entity" where
  "ownership context company name role =
     \<lparr>schema = ''Ownership'',
      eid = make_id context [CStr ''Ownership'', id_cell (eid company), CStr name],
      props = [(''asset'', id_cell (eid company)),
               (''owner'', id_cell (eid (legal_entity context company name))),
               (''role'', role)]\<rparr>"

definition owner_entity :: "Context \<Rightarrow> Entity \<Rightarrow> string \<Rightarrow> cell \<Rightarrow> Entity" where
  "owner_entity context company name country =
     \<lparr>schema = ''LegalEntity'',
      eid = make_id context [id_cell (eid company), CStr name],
      props = [(''name'', CStr name), (''country'', country)]\<rparr>"

definition company_record ::
  "string option \<Rightarrow> cell \<Rightarrow> cell \<Rightarrow> cell \<Rightarrow> cell \<Rightarrow> cell \<Rightarrow> cell \<Rightarrow> Entity" where
  "company_record key idno name address incorporation dissolution legal_form =
     \<lparr>schema = ''Company'',
      eid = key,
      props = [(''name'', name), (''taxNumber'', idno),
               (''incorporationDate'', incorporation), (''dissolutionDate'', dissolution),
               (''jurisdiction'', CStr ''md''), (''address'', address),
               (''legalForm'', legal_form)]\<rparr>"

text \<open>The identity rule of a Company.\<close>

definition company_key :: "Context \<Rightarrow> cell \<Rightarrow> cell \<Rightarrow> cell \<Rightarrow> string option" where
  "company_key context idno name address =
     (if idno \<noteq> CNone then Some (''oc-companies-md-'' @ str_cell idno)
      else make_id context [name, address])"

text \<open>The records one piece of the directors, founders or owners field yields.\<close>

definition director_records :: "Context \<Rightarrow> Entity \<Rightarrow> string \<Rightarrow> Entity list" where
  "director_records context company piece =
     (if length (fst (split_role piece)) < 3 then []
      else [legal_entity context company (fst (split_role piece)),
            directorship context company (fst (split_role piece)) (snd (split_role piece))])"

definition founder_records :: "Context \<Rightarrow> Entity \<Rightarrow> string \<Rightarrow> Entity list" where
  "founder_records context company piece =
     (if fst (split_percentage piece) \<noteq> []
      then [legal_entity context company (fst (split_percentage piece)),
            ownership context company (fst (split_percentage piece))
              (snd (split_percentage piece))]
      else [])"

definition owner_records :: "Context \<Rightarrow> Entity \<Rightarrow> string \<Rightarrow> Entity list" where
  "owner_records context company piece =
     (if fst (split_percentage piece) \<noteq> []
      then [owner_entity context company (fst (split_percentage piece))
              (snd (split_percentage piece)),
            ownership context company (fst (split_percentage piece))
              (CStr ''beneficiarilor efectivi'')]
      else [])"

definition owner_warnings :: "Context \<Rightarrow> string \<Rightarrow> log_entry list" where
  "owner_warnings context piece =
     (if snd (split_percentage piece) \<noteq> CNone
         \<and> \<not> accepts context ''LegalEntity'' ''country'' (snd (split_percentage piece))
      then [Log Warn ''Unknown country code'' [(''country'', snd (split_percentage piece))]]
      else [])"

text \<open>The records a whole field yields: none for \<open>None\<close>.\<close>

definition field_records :: "(string \<Rightarrow> Entity list) \<Rightarrow> string \<Rightarrow> cell \<Rightarrow> Entity list" where
  "field_records records sep v =
     (case v of CStr s \<Rightarrow> concat (map records (split s sep)) | _ \<Rightarrow> [])"

text \<open>The columns of a row that \<open>parse_company\<close> does not read: what it hands to the audit.\<close>

definition unread :: "pydict \<Rightarrow> pydict" where
  "unread data =
     filter (\<lambda>kv. fst kv \<notin> set [COL_IDNO, COL_NAME, COL_ADDRESS, COL_INCORPORATION,
                                  COL_DISSOLUTION, COL_LEGAL_FORM, COL_DIRECTORS, COL_FOUNDERS,
                                  COL_OWNERS]) data"

text \<open>
  The claim that a founder loses only a trailing \<open>)\<close>, as \<open>rstrip(")")\<close> would do it,
  set against \<open>split_percentage\<close>, which removes every \<open>)\<close>.
\<close>

definition claimed_split_percentage :: "string \<Rightarrow> string \<times> cell" where
  "claimed_split_percentage founder0 =
     (let founder1 = rev (dropWhile (\<lambda>x. x = CHR '')'') (rev founder0));
          (founder2, percentage) =
            (case rsplit1 founder1 CHR ''('' of
               Some (f, p) \<Rightarrow> (f, CStr p)
             | None \<Rightarrow> (founder1, CNone))
      in (strip founder2, percentage))"


text \<open>
  The claim that the resource locator locates exactly one anchor: of the anchors of
  the catalog page that match the resource-item pattern there is one and no more.
\<close>

definition exactly_one_anchor :: "element \<Rightarrow> bool" where
  "exactly_one_anchor doc = (length (resource_anchors doc) = 1)"

text \<open>The values handed to a property of an entity.\<close>

definition prop_values :: "Entity \<Rightarrow> string \<Rightarrow> cell list" where
  "prop_values e prop = map snd (filter (\<lambda>pv. fst pv = prop) (props e))"

subsection \<open>The dated candidates of a catalog page\<close>

text \<open>
  The links the recency selector compares: of the \<open>.xlsx\<close> links of the page, those
  whose href has neither the stale marker nor the 2019 path and carries a date of
  the calendar, each with that date, in document order.
\<close>

definition stale :: "string \<Rightarrow> bool" where
  "stale href = (contains href ''17.06.2024'' \<or> search_2019 href)"

definition dated_candidate :: "element \<Rightarrow> (datetime \<times> string) list" where
  "dated_candidate link =
     (case get link ''href'' of
        None \<Rightarrow> []
      | Some href \<Rightarrow>
          if stale href then []
          else (case search_date href of
                  None \<Rightarrow> []
                | Some group0 \<Rightarrow>
                    (case strptime group0 of Inl e \<Rightarrow> [] | Inr date_obj \<Rightarrow> [(date_obj, href)])))"

definition dated_candidates :: "element \<Rightarrow> (datetime \<times> string) list" where
  "dated_candidates doc = concat (map dated_candidate (xlsx_links False doc))"

text \<open>Every date pattern found in a link that is not stale is a date of the calendar.\<close>

definition date_valid :: "element \<Rightarrow> bool" where
  "date_valid link =
     (case get link ''href'' of
        None \<Rightarrow> True
      | Some href \<Rightarrow>
          stale href \<or>
          (case search_date href of
             None \<Rightarrow> True
           | Some group0 \<Rightarrow> (case strptime group0 of Inl e \<Rightarrow> False | Inr date_obj \<Rightarrow> True)))"

definition dates_valid :: "element \<Rightarrow> bool" where
  "dates_valid doc = list_all date_valid (xlsx_links False doc)"

subsection \<open>A toolkit and inputs to run the parser on\<close>

text \<open>
  An id generator that joins the parts that are neither \<open>None\<close> nor empty and gives
  \<open>None\<close> when there is none, and a toolkit that keeps every value but \<open>None\<close> and
  the empty string.
\<close>

definition demo_make_id :: "cell list \<Rightarrow> string option" where
  "demo_make_id parts =
     (let ps = filter (\<lambda>v. v \<noteq> CNone \<and> v \<noteq> CStr []) parts
      in if ps = [] then None else Some (concat (map (\<lambda>v. CHR ''#'' # str_cell v) ps)))"

definition demo_context :: Context where
  "demo_context =
     \<lparr>dataset_url = None,
      pages = (\<lambda>url. None),
      make_id = demo_make_id,
      accepts = (\<lambda>s p v. v \<noteq> CNone \<and> v \<noteq> CStr []),
      emitted = [],
      log = [],
      audited = []\<rparr>"

definition demo_company :: Entity where
  "demo_company = \<lparr>schema = ''Company'', eid = Some ''oc-companies-md-1003600000000'', props = []\<rparr>"

text \<open>A row of the sheet, with one director and one founder and no owners column.\<close>

definition demo_row :: pydict where
  "demo_row =
     [(COL_IDNO, CInt 1003600000000), (COL_NAME, CStr ''Alfa SRL''),
      (COL_ADDRESS, CStr ''Chisinau''), (COL_INCORPORATION, CStr ''2001-05-17''),
      (COL_DISSOLUTION, CNone), (COL_LEGAL_FORM, CStr ''SRL''),
      (COL_DIRECTORS, CStr ''Ana Popescu [Director]''),
      (COL_FOUNDERS, CStr ''Ion Rusu (100%)'')]"

text \<open>The same row without tax id, directors and founders.\<close>

definition demo_row_no_idno :: pydict where
  "demo_row_no_idno =
     [(COL_IDNO, CNone), (COL_NAME, CStr ''Alfa SRL''),
      (COL_ADDRESS, CStr ''Chisinau''), (COL_INCORPORATION, CStr ''2001-05-17''),
      (COL_DISSOLUTION, CNone), (COL_LEGAL_FORM, CStr ''SRL''),
      (COL_DIRECTORS, CNone), (COL_FOUNDERS, CNone)]"

text \<open>A row of a sheet with three columns only, all of them empty.\<close>

definition demo_row_bare :: pydict where
  "demo_row_bare = [(COL_IDNO, CNone), (COL_NAME, CNone), (COL_ADDRESS, CNone)]"

definition demo_row_company :: Entity where
  "demo_row_company =
     company_record (Some ''oc-companies-md-1003600000000'') (CInt 1003600000000)
       (CStr ''Alfa SRL'') (CStr ''Chisinau'') (CStr ''2001-05-17'') CNone (CStr ''SRL'')"

text \<open>
  A catalog page that lists the given hrefs as resource links, and the current time
  09:30 on 1 February 2025.
\<close>

definition demo_link :: "string \<Rightarrow> element" where
  "demo_link href =
     Element ''li'' [(''class'', ''resource-item'')]
       [Element ''a'' [(''class'', ''resource-url-analytics''), (''href'', href)] []]"

definition demo_catalog :: "string list \<Rightarrow> element" where
  "demo_catalog hrefs =
     Element ''html'' []
       [Element ''body'' [] [Element ''ul'' [(''class'', ''resource-list'')] (map demo_link hrefs)]]"

definition demo_now :: datetime where
  "demo_now = \<lparr>year = 2025, month = 2, day = 1, hour = 9, minute = 30, second = 0,
                microsecond = 0\<rparr>"

text \<open>
  A data catalog of two pages: the dataset page links to the resource page, the
  resource page to the file. Both pages carry anchors that the two patterns leave
  out: on the dataset page an anchor outside any list item, one in a list item of
  another class and one deeper inside the resource item; on the resource page an
  anchor before the actions container and one in a container of another class.
  \<open>demo_urljoin\<close> resolves a path against the host of the base URL used here.
\<close>

definition demo_dataset_page :: element where
  "demo_dataset_page =
     Element ''html'' []
       [Element ''body'' []
          [Element ''a'' [(''href'', ''/about'')] [],
           Element ''ul'' []
             [Element ''li'' [(''class'', ''resource-item active'')]
                [Element ''a'' [(''href'', ''/dataset/companies/resource/0'')] []],
              Element ''li'' [(''class'', ''resource-item'')]
                [Element ''a'' [(''href'', ''/dataset/companies/resource/1'')] [],
                 Element ''div'' []
                   [Element ''a'' [(''href'', ''/dataset/companies/resource/1/download'')] []]]]]]"

definition demo_resource_page :: element where
  "demo_resource_page =
     Element ''html'' []
       [Element ''body'' []
          [Element ''a'' [(''href'', ''/about'')] [],
           Element ''div'' [(''class'', ''actions-menu'')]
             [Element ''a'' [(''href'', ''/login'')] []],
           Element ''div'' [(''class'', ''actions'')]
             [Element ''ul'' []
                [Element ''li'' [] [Element ''a'' [(''href'', ''https://dataset.gov.md/company.xlsx'')] []],
                 Element ''li'' [] [Element ''a'' [(''href'', ''https://dataset.gov.md/other'')] []]]]]]"

definition demo_urljoin :: "string \<Rightarrow> string \<Rightarrow> string" where
  "demo_urljoin base href = (if href = [] then base else ''https://dataset.gov.md'' @ href)"

definition demo_ckan_context :: Context where
  "demo_ckan_context =
     demo_context
       \<lparr>dataset_url := Some ''https://dataset.gov.md/dataset/companies'',
        pages := (\<lambda>url.
          if url = ''https://dataset.gov.md/dataset/companies'' then Some demo_dataset_page
          else if url = ''https://dataset.gov.md/dataset/companies/resource/1''
          then Some demo_resource_page
          else None)\<rparr>"

text \<open>
  The same catalog with a dataset page of two resource items: the first links to the
  resource page of an older file, the second to the resource page above.
\<close>

definition demo_dataset_page_two :: element where
  "demo_dataset_page_two =
     Element ''html'' []
       [Element ''body'' []
          [Element ''ul'' []
             [Element ''li'' [(''class'', ''resource-item'')]
                [Element ''a'' [(''href'', ''/dataset/companies/resource/0'')] []],
              Element ''li'' [(''class'', ''resource-item'')]
                [Element ''a'' [(''href'', ''/dataset/companies/resource/1'')] []]]]]"

definition demo_old_resource_page :: element where
  "demo_old_resource_page =
     Element ''html'' []
       [Element ''body'' []
          [Element ''div'' [(''class'', ''actions'')]
             [Element ''a'' [(''href'', ''https://dataset.gov.md/company-old.xlsx'')] []]]]"

definition demo_ckan_context_two :: Context where
  "demo_ckan_context_two =
     demo_context
       \<lparr>dataset_url := Some ''https://dataset.gov.md/dataset/companies'',
        pages := (\<lambda>url.
          if url = ''https://dataset.gov.md/dataset/companies'' then Some demo_dataset_page_two
          else if url = ''https://dataset.gov.md/dataset/companies/resource/0''
          then Some demo_old_resource_page
          else if url = ''https://dataset.gov.md/dataset/companies/resource/1''
          then Some demo_resource_page
          else None)\<rparr>"

section \<open>Properties\<close>

subsection \<open>Dictionaries and column labels\<close>

lemma map_of_popped:
  "k' \<noteq> k \<Longrightarrow> map_of (filter (\<lambda>kv. fst kv \<noteq> k) d) k' = map_of d k'"
  by (induction d) auto

lemma pop_then_Some:
  "map_of d k = Some v \<Longrightarrow> pop_then c d k rest = rest v (filter (\<lambda>kv. fst kv \<noteq> k) d)"
  by (simp add: pop_then_def pop_def)

lemma pop_then_None:
  "map_of d k = None \<Longrightarrow> pop_then c d k rest = Raises (KeyError k) c"
  by (simp add: pop_then_def pop_def)

lemmas COL_defs = COL_IDNO_def COL_NAME_def COL_ADDRESS_def COL_INCORPORATION_def
  COL_DISSOLUTION_def COL_LEGAL_FORM_def COL_DIRECTORS_def COL_FOUNDERS_def COL_OWNERS_def

lemma COL_neq:
  "COL_NAME \<noteq> COL_IDNO" "COL_ADDRESS \<noteq> COL_IDNO"
  "COL_ADDRESS \<noteq> COL_NAME" "COL_INCORPORATION \<noteq> COL_IDNO"
  "COL_INCORPORATION \<noteq> COL_NAME" "COL_INCORPORATION \<noteq> COL_ADDRESS"
  "COL_DISSOLUTION \<noteq> COL_IDNO" "COL_DISSOLUTION \<noteq> COL_NAME"
  "COL_DISSOLUTION \<noteq> COL_ADDRESS" "COL_DISSOLUTION \<noteq> COL_INCORPORATION"
  "COL_LEGAL_FORM \<noteq> COL_IDNO" "COL_LEGAL_FORM \<noteq> COL_NAME"
  "COL_LEGAL_FORM \<noteq> COL_ADDRESS" "COL_LEGAL_FORM \<noteq> COL_INCORPORATION"
  "COL_LEGAL_FORM \<noteq> COL_DISSOLUTION" "COL_DIRECTORS \<noteq> COL_IDNO"
  "COL_DIRECTORS \<noteq> COL_NAME" "COL_DIRECTORS \<noteq> COL_ADDRESS"
  "COL_DIRECTORS \<noteq> COL_INCORPORATION" "COL_DIRECTORS \<noteq> COL_DISSOLUTION"
  "COL_DIRECTORS \<noteq> COL_LEGAL_FORM" "COL_FOUNDERS \<noteq> COL_IDNO"
  "COL_FOUNDERS \<noteq> COL_NAME" "COL_FOUNDERS \<noteq> COL_ADDRESS"
  "COL_FOUNDERS \<noteq> COL_INCORPORATION" "COL_FOUNDERS \<noteq> COL_DISSOLUTION"
  "COL_FOUNDERS \<noteq> COL_LEGAL_FORM" "COL_FOUNDERS \<noteq> COL_DIRECTORS"
  "COL_OWNERS \<noteq> COL_IDNO" "COL_OWNERS \<noteq> COL_NAME"
  "COL_OWNERS \<noteq> COL_ADDRESS" "COL_OWNERS \<noteq> COL_INCORPORATION"
  "COL_OWNERS \<noteq> COL_DISSOLUTION" "COL_OWNERS \<noteq> COL_LEGAL_FORM"
  "COL_OWNERS \<noteq> COL_DIRECTORS" "COL_OWNERS \<noteq> COL_FOUNDERS"
  by (simp_all add: COL_defs)

lemma filter_absent: "map_of d k = None \<Longrightarrow> filter (\<lambda>kv. fst kv \<noteq> k) d = d"
  by (induction d) (auto split: if_splits)

lemma pop_default_eq:
  "pop_default d k CNone =
     ((case map_of d k of None \<Rightarrow> CNone | Some v \<Rightarrow> v), filter (\<lambda>kv. fst kv \<noteq> k) d)"
  by (simp add: pop_default_def pop_def filter_absent split: option.splits)

subsection \<open>Splitting at a separator\<close>

lemma startswith_append: "startswith s p \<Longrightarrow> startswith (s @ t) p"
  by (induction s p rule: startswith.induct) auto

lemma startswith_drop: "startswith s p \<Longrightarrow> p @ drop (length p) s = s"
  by (induction s p rule: startswith.induct) auto

lemma contains_iff:
  "contains s sub \<longleftrightarrow> (\<exists>i\<le>length s. startswith (drop i s) sub)"
proof (induction s)
  case Nil
  show ?case by (cases sub) auto
next
  case (Cons c cs)
  have "(\<exists>i\<le>length (c # cs). startswith (drop i (c # cs)) sub)
        \<longleftrightarrow> startswith (c # cs) sub \<or> (\<exists>i\<le>length cs. startswith (drop i cs) sub)"
  proof
    assume "\<exists>i\<le>length (c # cs). startswith (drop i (c # cs)) sub"
    then obtain i where i: "i \<le> length (c # cs)" "startswith (drop i (c # cs)) sub" by blast
    show "startswith (c # cs) sub \<or> (\<exists>i\<le>length cs. startswith (drop i cs) sub)"
    proof (cases i)
      case 0
      with i show ?thesis by simp
    next
      case (Suc j)
      with i have "j \<le> length cs" "startswith (drop j cs) sub" by simp_all
      then show ?thesis by blast
    qed
  next
    assume "startswith (c # cs) sub \<or> (\<exists>i\<le>length cs. startswith (drop i cs) sub)"
    then show "\<exists>i\<le>length (c # cs). startswith (drop i (c # cs)) sub"
    proof
      assume "startswith (c # cs) sub"
      then have "0 \<le> length (c # cs) \<and> startswith (drop 0 (c # cs)) sub" by simp
      then show ?thesis by blast
    next
      assume "\<exists>i\<le>length cs. startswith (drop i cs) sub"
      then obtain i where "i \<le> length cs" "startswith (drop i cs) sub" by blast
      then have "Suc i \<le> length (c # cs) \<and> startswith (drop (Suc i) (c # cs)) sub" by simp
      then show ?thesis by blast
    qed
  qed
  with Cons show ?case by simp
qed

lemma split_from_nonempty: "split_from sep cur s \<noteq> []"
  by (induction sep cur s rule: split_from.induct) auto

lemma join_Cons: "ps \<noteq> [] \<Longrightarrow> join sep (p # ps) = p @ sep @ join sep ps"
  by (cases ps) auto

lemma split_from_join: "join sep (split_from sep cur s) = cur @ s"
proof (induction sep cur s rule: split_from.induct)
  case (1 sep cur)
  show ?case by simp
next
  case (2 sep cur c cs)
  show ?case
  proof (cases "sep \<noteq> [] \<and> startswith (c # cs) sep")
    case True
    then have "join sep (split_from sep cur (c # cs))
        = cur @ sep @ join sep (split_from sep [] (drop (length sep) (c # cs)))"
      by (simp add: join_Cons split_from_nonempty)
    also have "\<dots> = cur @ sep @ drop (length sep) (c # cs)"
      using "2.IH"(1) True by simp
    also have "\<dots> = cur @ c # cs"
      using True startswith_drop[of "c # cs" sep] by simp
    finally show ?thesis .
  next
    case False
    then have "join sep (split_from sep cur (c # cs)) = join sep (split_from sep (cur @ [c]) cs)"
      by auto
    with "2.IH"(2) False show ?thesis by simp
  qed
qed

lemma split_from_free:
  assumes "sep \<noteq> []"
    and "\<forall>i<length cur. \<not> startswith (drop i (cur @ s)) sep"
    and "p \<in> set (split_from sep cur s)"
  shows "\<not> contains p sep"
  using assms
proof (induction sep cur s rule: split_from.induct)
  case (1 sep cur)
  then have p: "p = cur" by simp
  show ?case
  proof
    assume "contains p sep"
    then obtain i where i: "i \<le> length cur" "startswith (drop i cur) sep"
      using p contains_iff by blast
    show False
    proof (cases "i < length cur")
      case True
      with "1.prems"(2) i show False by simp
    next
      case False
      with i have "drop i cur = []" by simp
      with i "1.prems"(1) show False by (cases sep) auto
    qed
  qed
next
  case (2 sep cur c cs)
  show ?case
  proof (cases "startswith (c # cs) sep")
    case True
    with "2.prems" have "p = cur \<or> p \<in> set (split_from sep [] (drop (length sep) (c # cs)))"
      by simp
    then show ?thesis
    proof
      assume p: "p = cur"
      show ?thesis
      proof
        assume "contains p sep"
        then obtain i where i: "i \<le> length cur" "startswith (drop i cur) sep"
          using p contains_iff by blast
        show False
        proof (cases "i < length cur")
          case True
          from startswith_append[OF i(2), of "c # cs"] True have "startswith (drop i (cur @ c # cs)) sep"
            by simp
          with "2.prems"(2) True show False by blast
        next
          case False
          with i have "drop i cur = []" by simp
          with i "2.prems"(1) show False by (cases sep) auto
        qed
      qed
    next
      assume "p \<in> set (split_from sep [] (drop (length sep) (c # cs)))"
      with "2.IH"(1) "2.prems"(1) True show ?thesis by simp
    qed
  next
    case False
    with "2.prems" have p: "p \<in> set (split_from sep (cur @ [c]) cs)" by simp
    have "\<forall>i<length (cur @ [c]). \<not> startswith (drop i ((cur @ [c]) @ cs)) sep"
    proof (intro allI impI)
      fix i assume "i < length (cur @ [c])"
      then consider "i < length cur" | "i = length cur" by fastforce
      then show "\<not> startswith (drop i ((cur @ [c]) @ cs)) sep"
      proof cases
        case 1
        with "2.prems"(2) show ?thesis by simp
      next
        case 2
        with False show ?thesis by simp
      qed
    qed
    with "2.IH"(2) "2.prems"(1) False p show ?thesis by simp
  qed
qed

lemma split_join: "join sep (split s sep) = s"
  by (simp add: split_def split_from_join)

lemma split_free: "sep \<noteq> [] \<Longrightarrow> p \<in> set (split s sep) \<Longrightarrow> \<not> contains p sep"
  unfolding split_def by (rule split_from_free) simp_all

subsection \<open>Splitting at the last bracket\<close>

lemma rsplit1_None_iff: "rsplit1 s c = None \<longleftrightarrow> c \<notin> set s"
  by (induction s) (auto split: option.splits)

lemma rsplit1_append:
  "c \<notin> set b \<Longrightarrow> rsplit1 (a @ c # b) c = Some (a, b)"
proof (induction a)
  case Nil
  then have "rsplit1 b c = None" by (simp add: rsplit1_None_iff)
  then show ?case by simp
next
  case (Cons x a)
  then show ?case by simp
qed

lemma split_role_plain: "CHR ''['' \<notin> set piece \<Longrightarrow> split_role piece = (strip piece, CNone)"
  using rsplit1_None_iff[of piece "CHR ''[''"] by (simp add: split_role_def)

lemma split_role_bracket:
  "CHR ''['' \<notin> set b \<Longrightarrow>
     split_role (a @ CHR ''['' # b) = (strip a, CStr (strip (filter (\<lambda>x. x \<noteq> CHR '']'') b)))"
  by (simp add: split_role_def rsplit1_append replace_empty_def)

lemmas string_eval = split_def strip_def isspace_def replace_empty_def split_role_def
  split_percentage_def

subsection \<open>What the loops over the pieces of a field emit\<close>

lemma parse_director_eq:
  "parse_director c company p = c\<lparr>emitted := emitted c @ director_records c company p\<rparr>"
  by (cases "split_role p")
     (simp add: parse_director_def director_records_def legal_entity_def directorship_def
        make_entity_def add_def emit_def Let_def)

lemma directors_loop_eq:
  "directors_loop c company ps =
     c\<lparr>emitted := emitted c @ concat (map (director_records c company) ps)\<rparr>"
proof (induction ps arbitrary: c)
  case Nil
  show ?case by simp
next
  case (Cons p ps)
  have same: "director_records (c\<lparr>emitted := es\<rparr>) company = director_records c company" for es
    by (rule ext) (simp add: director_records_def legal_entity_def directorship_def)
  show ?case
    by (simp add: Cons.IH parse_director_eq same)
qed

lemma parse_founder_eq:
  "parse_founder c company p = c\<lparr>emitted := emitted c @ founder_records c company p\<rparr>"
  by (cases "split_percentage p")
     (simp add: parse_founder_def founder_records_def legal_entity_def ownership_def
        make_entity_def add_def emit_def has_def keeps_def Let_def)

lemma founders_loop_eq:
  "founders_loop c company ps =
     c\<lparr>emitted := emitted c @ concat (map (founder_records c company) ps)\<rparr>"
proof (induction ps arbitrary: c)
  case Nil
  show ?case by simp
next
  case (Cons p ps)
  have same: "founder_records (c\<lparr>emitted := es\<rparr>) company = founder_records c company" for es
    by (rule ext) (simp add: founder_records_def legal_entity_def ownership_def)
  show ?case
    by (simp add: Cons.IH parse_founder_eq same)
qed

lemma parse_owner_eq:
  "parse_owner c company p =
     c\<lparr>emitted := emitted c @ owner_records c company p,
       log := log c @ owner_warnings c p\<rparr>"
  by (cases "split_percentage p")
     (simp add: parse_owner_def owner_records_def owner_warnings_def owner_entity_def
        legal_entity_def ownership_def make_entity_def add_def emit_def has_def keeps_def
        write_log_def Let_def)

lemma owners_loop_eq:
  "owners_loop c company ps =
     c\<lparr>emitted := emitted c @ concat (map (owner_records c company) ps),
       log := log c @ concat (map (owner_warnings c) ps)\<rparr>"
proof (induction ps arbitrary: c)
  case Nil
  show ?case by simp
next
  case (Cons p ps)
  have same: "owner_records (c\<lparr>emitted := es, log := ls\<rparr>) company = owner_records c company"
    for es ls
    by (rule ext) (simp add: owner_records_def owner_entity_def legal_entity_def ownership_def)
  have same2: "owner_warnings (c\<lparr>emitted := es, log := ls\<rparr>) = owner_warnings c" for es ls
    by (rule ext) (simp add: owner_warnings_def)
  show ?case
    by (simp add: Cons.IH parse_owner_eq same same2)
qed

lemma parse_directors_eq:
  "parse_directors c company (CStr s) =
     Returns () (c\<lparr>emitted := emitted c
       @ field_records (director_records c company) ''],'' (CStr s)\<rparr>)"
  by (simp add: parse_directors_def directors_loop_eq field_records_def)

subsection \<open>The steps of \<open>parse_company\<close>\<close>

lemma unread_eq:
  "filter (\<lambda>kv. fst kv \<noteq> COL_OWNERS) (filter (\<lambda>kv. fst kv \<noteq> COL_FOUNDERS)
     (filter (\<lambda>kv. fst kv \<noteq> COL_DIRECTORS) (filter (\<lambda>kv. fst kv \<noteq> COL_LEGAL_FORM)
     (filter (\<lambda>kv. fst kv \<noteq> COL_DISSOLUTION) (filter (\<lambda>kv. fst kv \<noteq> COL_INCORPORATION)
     (filter (\<lambda>kv. fst kv \<noteq> COL_ADDRESS) (filter (\<lambda>kv. fst kv \<noteq> COL_NAME)
     (filter (\<lambda>kv. fst kv \<noteq> COL_IDNO) data)))))))) = unread data"
  unfolding unread_def filter_filter by (rule filter_cong[OF refl]) auto

lemma add_record:
  "add \<lparr>schema = s, eid = i, props = ps\<rparr> p v = \<lparr>schema = s, eid = i, props = ps @ [(p, v)]\<rparr>"
  by (simp add: add_def)

lemma parse_company_missing_0:
  assumes m: "map_of data COL_IDNO = None"
  shows "parse_company c data = Raises (KeyError COL_IDNO) c"
proof -
  show ?thesis
    unfolding parse_company_def pop_then_None[OF m]
    by (simp add: company_key_def Let_def make_entity_def add_record company_record_def write_log_def)
qed

lemma parse_company_missing_1:
  assumes p0: "map_of data COL_IDNO = Some idno"
    and m: "map_of data COL_NAME = None"
  shows "parse_company c data = Raises (KeyError COL_NAME) c"
proof -
  have fm: "map_of (filter (\<lambda>kv. fst kv \<noteq> COL_IDNO) data) COL_NAME = None"
    using m by (simp add: map_of_popped COL_neq del: filter_filter)
  show ?thesis
    unfolding parse_company_def pop_then_Some[OF p0] pop_then_None[OF fm]
    by (simp add: company_key_def Let_def make_entity_def add_record company_record_def write_log_def)
qed

lemma parse_company_missing_2:
  assumes p0: "map_of data COL_IDNO = Some idno"
    and p1: "map_of data COL_NAME = Some name"
    and m: "map_of data COL_ADDRESS = None"
  shows "parse_company c data = Raises (KeyError COL_ADDRESS) c"
proof -
  have f1: "map_of (filter (\<lambda>kv. fst kv \<noteq> COL_IDNO) data) COL_NAME = Some name"
    using p1 by (simp add: map_of_popped COL_neq del: filter_filter)
  have fm: "map_of (filter (\<lambda>kv. fst kv \<noteq> COL_NAME) (filter (\<lambda>kv. fst kv \<noteq> COL_IDNO) data)) COL_ADDRESS = None"
    using m by (simp add: map_of_popped COL_neq del: filter_filter)
  show ?thesis
    unfolding parse_company_def pop_then_Some[OF p0] pop_then_Some[OF f1] pop_then_None[OF fm]
    by (simp add: company_key_def Let_def make_entity_def add_record company_record_def write_log_def)
qed

lemma parse_company_no_key:
  assumes p0: "map_of data COL_IDNO = Some idno"
    and p1: "map_of data COL_NAME = Some name"
    and p2: "map_of data COL_ADDRESS = Some address"
    and k: "company_key c idno name address = None"
  shows "parse_company c data =
           Returns () (write_log c (Log Error ''Cannot generate key''
              [(''idno'', idno), (''name'', name), (''address'', address)]))"
proof -
  have f1: "map_of (filter (\<lambda>kv. fst kv \<noteq> COL_IDNO) data) COL_NAME = Some name"
    using p1 by (simp add: map_of_popped COL_neq del: filter_filter)
  have f2: "map_of (filter (\<lambda>kv. fst kv \<noteq> COL_NAME) (filter (\<lambda>kv. fst kv \<noteq> COL_IDNO) data)) COL_ADDRESS = Some address"
    using p2 by (simp add: map_of_popped COL_neq del: filter_filter)
  show ?thesis
    unfolding parse_company_def pop_then_Some[OF p0] pop_then_Some[OF f1] pop_then_Some[OF f2]
    using k by (cases "idno = CNone") (simp_all add: company_key_def Let_def make_entity_def add_record company_record_def write_log_def)
qed

lemma parse_company_missing_3:
  assumes p0: "map_of data COL_IDNO = Some idno"
    and p1: "map_of data COL_NAME = Some name"
    and p2: "map_of data COL_ADDRESS = Some address"
    and k: "company_key c idno name address = Some key"
    and m: "map_of data COL_INCORPORATION = None"
  shows "parse_company c data = Raises (KeyError COL_INCORPORATION) c"
proof -
  have f1: "map_of (filter (\<lambda>kv. fst kv \<noteq> COL_IDNO) data) COL_NAME = Some name"
    using p1 by (simp add: map_of_popped COL_neq del: filter_filter)
  have f2: "map_of (filter (\<lambda>kv. fst kv \<noteq> COL_NAME) (filter (\<lambda>kv. fst kv \<noteq> COL_IDNO) data)) COL_ADDRESS = Some address"
    using p2 by (simp add: map_of_popped COL_neq del: filter_filter)
  have fm: "map_of (filter (\<lambda>kv. fst kv \<noteq> COL_ADDRESS) (filter (\<lambda>kv. fst kv \<noteq> COL_NAME) (filter (\<lambda>kv. fst kv \<noteq> COL_IDNO) data))) COL_INCORPORATION = None"
    using m by (simp add: map_of_popped COL_neq del: filter_filter)
  show ?thesis
    unfolding parse_company_def pop_then_Some[OF p0] pop_then_Some[OF f1] pop_then_Some[OF f2] pop_then_None[OF fm]
    using k by (cases "idno = CNone") (simp_all add: company_key_def Let_def make_entity_def add_record company_record_def write_log_def)
qed

lemma parse_company_missing_4:
  assumes p0: "map_of data COL_IDNO = Some idno"
    and p1: "map_of data COL_NAME = Some name"
    and p2: "map_of data COL_ADDRESS = Some address"
    and k: "company_key c idno name address = Some key"
    and p3: "map_of data COL_INCORPORATION = Some inc"
    and m: "map_of data COL_DISSOLUTION = None"
  shows "parse_company c data = Raises (KeyError COL_DISSOLUTION) c"
proof -
  have f1: "map_of (filter (\<lambda>kv. fst kv \<noteq> COL_IDNO) data) COL_NAME = Some name"
    using p1 by (simp add: map_of_popped COL_neq del: filter_filter)
  have f2: "map_of (filter (\<lambda>kv. fst kv \<noteq> COL_NAME) (filter (\<lambda>kv. fst kv \<noteq> COL_IDNO) data)) COL_ADDRESS = Some address"
    using p2 by (simp add: map_of_popped COL_neq del: filter_filter)
  have f3: "map_of (filter (\<lambda>kv. fst kv \<noteq> COL_ADDRESS) (filter (\<lambda>kv. fst kv \<noteq> COL_NAME) (filter (\<lambda>kv. fst kv \<noteq> COL_IDNO) data))) COL_INCORPORATION = Some inc"
    using p3 by (simp add: map_of_popped COL_neq del: filter_filter)
  have fm: "map_of (filter (\<lambda>kv. fst kv \<noteq> COL_INCORPORATION) (filter (\<lambda>kv. fst kv \<noteq> COL_ADDRESS) (filter (\<lambda>kv. fst kv \<noteq> COL_NAME) (filter (\<lambda>kv. fst kv \<noteq> COL_IDNO) data)))) COL_DISSOLUTION = None"
    using m by (simp add: map_of_popped COL_neq del: filter_filter)
  show ?thesis
    unfolding parse_company_def pop_then_Some[OF p0] pop_then_Some[OF f1] pop_then_Some[OF f2] pop_then_Some[OF f3] pop_then_None[OF fm]
    using k by (cases "idno = CNone") (simp_all add: company_key_def Let_def make_entity_def add_record company_record_def write_log_def)
qed

lemma parse_company_missing_5:
  assumes p0: "map_of data COL_IDNO = Some idno"
    and p1: "map_of data COL_NAME = Some name"
    and p2: "map_of data COL_ADDRESS = Some address"
    and k: "company_key c idno name address = Some key"
    and p3: "map_of data COL_INCORPORATION = Some inc"
    and p4: "map_of data COL_DISSOLUTION = Some dis"
    and m: "map_of data COL_LEGAL_FORM = None"
  shows "parse_company c data = Raises (KeyError COL_LEGAL_FORM) c"
proof -
  have f1: "map_of (filter (\<lambda>kv. fst kv \<noteq> COL_IDNO) data) COL_NAME = Some name"
    using p1 by (simp add: map_of_popped COL_neq del: filter_filter)
  have f2: "map_of (filter (\<lambda>kv. fst kv \<noteq> COL_NAME) (filter (\<lambda>kv. fst kv \<noteq> COL_IDNO) data)) COL_ADDRESS = Some address"
    using p2 by (simp add: map_of_popped COL_neq del: filter_filter)
  have f3: "map_of (filter (\<lambda>kv. fst kv \<noteq> COL_ADDRESS) (filter (\<lambda>kv. fst kv \<noteq> COL_NAME) (filter (\<lambda>kv. fst kv \<noteq> COL_IDNO) data))) COL_INCORPORATION = Some inc"
    using p3 by (simp add: map_of_popped COL_neq del: filter_filter)
  have f4: "map_of (filter (\<lambda>kv. fst kv \<noteq> COL_INCORPORATION) (filter (\<lambda>kv. fst kv \<noteq> COL_ADDRESS) (filter (\<lambda>kv. fst kv \<noteq> COL_NAME) (filter (\<lambda>kv. fst kv \<noteq> COL_IDNO) data)))) COL_DISSOLUTION = Some dis"
    using p4 by (simp add: map_of_popped COL_neq del: filter_filter)
  have fm: "map_of (filter (\<lambda>kv. fst kv \<noteq> COL_DISSOLUTION) (filter (\<lambda>kv. fst kv \<noteq> COL_INCORPORATION) (filter (\<lambda>kv. fst kv \<noteq> COL_ADDRESS) (filter (\<lambda>kv. fst kv \<noteq> COL_NAME) (filter (\<lambda>kv. fst kv \<noteq> COL_IDNO) data))))) COL_LEGAL_FORM = None"
    using m by (simp add: map_of_popped COL_neq del: filter_filter)
  show ?thesis
    unfolding parse_company_def pop_then_Some[OF p0] pop_then_Some[OF f1] pop_then_Some[OF f2] pop_then_Some[OF f3] pop_then_Some[OF f4] pop_then_None[OF fm]
    using k by (cases "idno = CNone") (simp_all add: company_key_def Let_def make_entity_def add_record company_record_def write_log_def)
qed

lemma parse_company_missing_6:
  assumes p0: "map_of data COL_IDNO = Some idno"
    and p1: "map_of data COL_NAME = Some name"
    and p2: "map_of data COL_ADDRESS = Some address"
    and k: "company_key c idno name address = Some key"
    and p3: "map_of data COL_INCORPORATION = Some inc"
    and p4: "map_of data COL_DISSOLUTION = Some dis"
    and p5: "map_of data COL_LEGAL_FORM = Some lf"
    and m: "map_of data COL_DIRECTORS = None"
  shows "parse_company c data = Raises (KeyError COL_DIRECTORS) c"
proof -
  have f1: "map_of (filter (\<lambda>kv. fst kv \<noteq> COL_IDNO) data) COL_NAME = Some name"
    using p1 by (simp add: map_of_popped COL_neq del: filter_filter)
  have f2: "map_of (filter (\<lambda>kv. fst kv \<noteq> COL_NAME) (filter (\<lambda>kv. fst kv \<noteq> COL_IDNO) data)) COL_ADDRESS = Some address"
    using p2 by (simp add: map_of_popped COL_neq del: filter_filter)
  have f3: "map_of (filter (\<lambda>kv. fst kv \<noteq> COL_ADDRESS) (filter (\<lambda>kv. fst kv \<noteq> COL_NAME) (filter (\<lambda>kv. fst kv \<noteq> COL_IDNO) data))) COL_INCORPORATION = Some inc"
    using p3 by (simp add: map_of_popped COL_neq del: filter_filter)
  have f4: "map_of (filter (\<lambda>kv. fst kv \<noteq> COL_INCORPORATION) (filter (\<lambda>kv. fst kv \<noteq> COL_ADDRESS) (filter (\<lambda>kv. fst kv \<noteq> COL_NAME) (filter (\<lambda>kv. fst kv \<noteq> COL_IDNO) data)))) COL_DISSOLUTION = Some dis"
    using p4 by (simp add: map_of_popped COL_neq del: filter_filter)
  have f5: "map_of (filter (\<lambda>kv. fst kv \<noteq> COL_DISSOLUTION) (filter (\<lambda>kv. fst kv \<noteq> COL_INCORPORATION) (filter (\<lambda>kv. fst kv \<noteq> COL_ADDRESS) (filter (\<lambda>kv. fst kv \<noteq> COL_NAME) (filter (\<lambda>kv. fst kv \<noteq> COL_IDNO) data))))) COL_LEGAL_FORM = Some lf"
    using p5 by (simp add: map_of_popped COL_neq del: filter_filter)
  have fm: "map_of (filter (\<lambda>kv. fst kv \<noteq> COL_LEGAL_FORM) (filter (\<lambda>kv. fst kv \<noteq> COL_DISSOLUTION) (filter (\<lambda>kv. fst kv \<noteq> COL_INCORPORATION) (filter (\<lambda>kv. fst kv \<noteq> COL_ADDRESS) (filter (\<lambda>kv. fst kv \<noteq> COL_NAME) (filter (\<lambda>kv. fst kv \<noteq> COL_IDNO) data)))))) COL_DIRECTORS = None"
    using m by (simp add: map_of_popped COL_neq del: filter_filter)
  show ?thesis
    unfolding parse_company_def pop_then_Some[OF p0] pop_then_Some[OF f1] pop_then_Some[OF f2] pop_then_Some[OF f3] pop_then_Some[OF f4] pop_then_Some[OF f5] pop_then_None[OF fm]
    using k by (cases "idno = CNone") (simp_all add: company_key_def Let_def make_entity_def add_record company_record_def write_log_def)
qed

lemma parse_company_missing_7:
  assumes p0: "map_of data COL_IDNO = Some idno"
    and p1: "map_of data COL_NAME = Some name"
    and p2: "map_of data COL_ADDRESS = Some address"
    and k: "company_key c idno name address = Some key"
    and p3: "map_of data COL_INCORPORATION = Some inc"
    and p4: "map_of data COL_DISSOLUTION = Some dis"
    and p5: "map_of data COL_LEGAL_FORM = Some lf"
    and p6: "map_of data COL_DIRECTORS = Some dirs"
    and m: "map_of data COL_FOUNDERS = None"
  shows "parse_company c data =
           and_then (parse_directors c (company_record (Some key) idno name address inc dis lf) dirs)
             (\<lambda>c1. Raises (KeyError COL_FOUNDERS) c1)"
proof -
  have f1: "map_of (filter (\<lambda>kv. fst kv \<noteq> COL_IDNO) data) COL_NAME = Some name"
    using p1 by (simp add: map_of_popped COL_neq del: filter_filter)
  have f2: "map_of (filter (\<lambda>kv. fst kv \<noteq> COL_NAME) (filter (\<lambda>kv. fst kv \<noteq> COL_IDNO) data)) COL_ADDRESS = Some address"
    using p2 by (simp add: map_of_popped COL_neq del: filter_filter)
  have f3: "map_of (filter (\<lambda>kv. fst kv \<noteq> COL_ADDRESS) (filter (\<lambda>kv. fst kv \<noteq> COL_NAME) (filter (\<lambda>kv. fst kv \<noteq> COL_IDNO) data))) COL_INCORPORATION = Some inc"
    using p3 by (simp add: map_of_popped COL_neq del: filter_filter)
  have f4: "map_of (filter (\<lambda>kv. fst kv \<noteq> COL_INCORPORATION) (filter (\<lambda>kv. fst kv \<noteq> COL_ADDRESS) (filter (\<lambda>kv. fst kv \<noteq> COL_NAME) (filter (\<lambda>kv. fst kv \<noteq> COL_IDNO) data)))) COL_DISSOLUTION = Some dis"
    using p4 by (simp add: map_of_popped COL_neq del: filter_filter)
  have f5: "map_of (filter (\<lambda>kv. fst kv \<noteq> COL_DISSOLUTION) (filter (\<lambda>kv. fst kv \<noteq> COL_INCORPORATION) (filter (\<lambda>kv. fst kv \<noteq> COL_ADDRESS) (filter (\<lambda>kv. fst kv \<noteq> COL_NAME) (filter (\<lambda>kv. fst kv \<noteq> COL_IDNO) data))))) COL_LEGAL_FORM = Some lf"
    using p5 by (simp add: map_of_popped COL_neq del: filter_filter)
  have f6: "map_of (filter (\<lambda>kv. fst kv \<noteq> COL_LEGAL_FORM) (filter (\<lambda>kv. fst kv \<noteq> COL_DISSOLUTION) (filter (\<lambda>kv. fst kv \<noteq> COL_INCORPORATION) (filter (\<lambda>kv. fst kv \<noteq> COL_ADDRESS) (filter (\<lambda>kv. fst kv \<noteq> COL_NAME) (filter (\<lambda>kv. fst kv \<noteq> COL_IDNO) data)))))) COL_DIRECTORS = Some dirs"
    using p6 by (simp add: map_of_popped COL_neq del: filter_filter)
  have fm: "map_of (filter (\<lambda>kv. fst kv \<noteq> COL_DIRECTORS) (filter (\<lambda>kv. fst kv \<noteq> COL_LEGAL_FORM) (filter (\<lambda>kv. fst kv \<noteq> COL_DISSOLUTION) (filter (\<lambda>kv. fst kv \<noteq> COL_INCORPORATION) (filter (\<lambda>kv. fst kv \<noteq> COL_ADDRESS) (filter (\<lambda>kv. fst kv \<noteq> COL_NAME) (filter (\<lambda>kv. fst kv \<noteq> COL_IDNO) data))))))) COL_FOUNDERS = None"
    using m by (simp add: map_of_popped COL_neq del: filter_filter)
  show ?thesis
    unfolding parse_company_def pop_then_Some[OF p0] pop_then_Some[OF f1] pop_then_Some[OF f2] pop_then_Some[OF f3] pop_then_Some[OF f4] pop_then_Some[OF f5] pop_then_Some[OF f6] pop_then_None[OF fm]
    using k by (cases "idno = CNone") (simp_all add: company_key_def Let_def make_entity_def add_record company_record_def write_log_def)
qed

lemma parse_company_present:
  assumes p0: "map_of data COL_IDNO = Some idno"
    and p1: "map_of data COL_NAME = Some name"
    and p2: "map_of data COL_ADDRESS = Some address"
    and k: "company_key c idno name address = Some key"
    and p3: "map_of data COL_INCORPORATION = Some inc"
    and p4: "map_of data COL_DISSOLUTION = Some dis"
    and p5: "map_of data COL_LEGAL_FORM = Some lf"
    and p6: "map_of data COL_DIRECTORS = Some dirs"
    and p7: "map_of data COL_FOUNDERS = Some fnd"
  shows "parse_company c data =
           and_then (parse_directors c (company_record (Some key) idno name address inc dis lf) dirs) (\<lambda>c1.
           and_then (parse_founders c1 (company_record (Some key) idno name address inc dis lf) fnd) (\<lambda>c2.
           and_then (parse_owners c2 (company_record (Some key) idno name address inc dis lf)
                       (case map_of data COL_OWNERS of None \<Rightarrow> CNone | Some v \<Rightarrow> v)) (\<lambda>c3.
           Returns () (audit_data (emit c3 (company_record (Some key) idno name address inc dis lf))
                         (unread data) IGNORE_COLUMNS))))"
proof -
  have f1: "map_of (filter (\<lambda>kv. fst kv \<noteq> COL_IDNO) data) COL_NAME = Some name"
    using p1 by (simp add: map_of_popped COL_neq del: filter_filter)
  have f2: "map_of (filter (\<lambda>kv. fst kv \<noteq> COL_NAME) (filter (\<lambda>kv. fst kv \<noteq> COL_IDNO) data)) COL_ADDRESS = Some address"
    using p2 by (simp add: map_of_popped COL_neq del: filter_filter)
  have f3: "map_of (filter (\<lambda>kv. fst kv \<noteq> COL_ADDRESS) (filter (\<lambda>kv. fst kv \<noteq> COL_NAME) (filter (\<lambda>kv. fst kv \<noteq> COL_IDNO) data))) COL_INCORPORATION = Some inc"
    using p3 by (simp add: map_of_popped COL_neq del: filter_filter)
  have f4: "map_of (filter (\<lambda>kv. fst kv \<noteq> COL_INCORPORATION) (filter (\<lambda>kv. fst kv \<noteq> COL_ADDRESS) (filter (\<lambda>kv. fst kv \<noteq> COL_NAME) (filter (\<lambda>kv. fst kv \<noteq> COL_IDNO) data)))) COL_DISSOLUTION = Some dis"
    using p4 by (simp add: map_of_popped COL_neq del: filter_filter)
  have f5: "map_of (filter (\<lambda>kv. fst kv \<noteq> COL_DISSOLUTION) (filter (\<lambda>kv. fst kv \<noteq> COL_INCORPORATION) (filter (\<lambda>kv. fst kv \<noteq> COL_ADDRESS) (filter (\<lambda>kv. fst kv \<noteq> COL_NAME) (filter (\<lambda>kv. fst kv \<noteq> COL_IDNO) data))))) COL_LEGAL_FORM = Some lf"
    using p5 by (simp add: map_of_popped COL_neq del: filter_filter)
  have f6: "map_of (filter (\<lambda>kv. fst kv \<noteq> COL_LEGAL_FORM) (filter (\<lambda>kv. fst kv \<noteq> COL_DISSOLUTION) (filter (\<lambda>kv. fst kv \<noteq> COL_INCORPORATION) (filter (\<lambda>kv. fst kv \<noteq> COL_ADDRESS) (filter (\<lambda>kv. fst kv \<noteq> COL_NAME) (filter (\<lambda>kv. fst kv \<noteq> COL_IDNO) data)))))) COL_DIRECTORS = Some dirs"
    using p6 by (simp add: map_of_popped COL_neq del: filter_filter)
  have f7: "map_of (filter (\<lambda>kv. fst kv \<noteq> COL_DIRECTORS) (filter (\<lambda>kv. fst kv \<noteq> COL_LEGAL_FORM) (filter (\<lambda>kv. fst kv \<noteq> COL_DISSOLUTION) (filter (\<lambda>kv. fst kv \<noteq> COL_INCORPORATION) (filter (\<lambda>kv. fst kv \<noteq> COL_ADDRESS) (filter (\<lambda>kv. fst kv \<noteq> COL_NAME) (filter (\<lambda>kv. fst kv \<noteq> COL_IDNO) data))))))) COL_FOUNDERS = Some fnd"
    using p7 by (simp add: map_of_popped COL_neq del: filter_filter)
  have o: "map_of (filter (\<lambda>kv. fst kv \<noteq> COL_FOUNDERS) (filter (\<lambda>kv. fst kv \<noteq> COL_DIRECTORS) (filter (\<lambda>kv. fst kv \<noteq> COL_LEGAL_FORM) (filter (\<lambda>kv. fst kv \<noteq> COL_DISSOLUTION) (filter (\<lambda>kv. fst kv \<noteq> COL_INCORPORATION) (filter (\<lambda>kv. fst kv \<noteq> COL_ADDRESS) (filter (\<lambda>kv. fst kv \<noteq> COL_NAME) (filter (\<lambda>kv. fst kv \<noteq> COL_IDNO) data)))))))) COL_OWNERS = map_of data COL_OWNERS"
    by (simp add: map_of_popped COL_neq del: filter_filter)
  have own: "pop_default (filter (\<lambda>kv. fst kv \<noteq> COL_FOUNDERS) (filter (\<lambda>kv. fst kv \<noteq> COL_DIRECTORS) (filter (\<lambda>kv. fst kv \<noteq> COL_LEGAL_FORM) (filter (\<lambda>kv. fst kv \<noteq> COL_DISSOLUTION) (filter (\<lambda>kv. fst kv \<noteq> COL_INCORPORATION) (filter (\<lambda>kv. fst kv \<noteq> COL_ADDRESS) (filter (\<lambda>kv. fst kv \<noteq> COL_NAME) (filter (\<lambda>kv. fst kv \<noteq> COL_IDNO) data)))))))) COL_OWNERS CNone
      = ((case map_of data COL_OWNERS of None \<Rightarrow> CNone | Some v \<Rightarrow> v), unread data)"
    unfolding pop_default_eq o unread_eq ..
  show ?thesis
    unfolding parse_company_def pop_then_Some[OF p0] pop_then_Some[OF f1] pop_then_Some[OF f2] pop_then_Some[OF f3] pop_then_Some[OF f4] pop_then_Some[OF f5] pop_then_Some[OF f6] pop_then_Some[OF f7] own
    using k by (cases "idno = CNone") (simp_all add: company_key_def Let_def make_entity_def add_record company_record_def)
qed

subsection \<open>What a returning \<open>parse_company\<close> has done\<close>

lemma parse_directors_cases:
  "parse_directors c company v =
     (if v = CNone \<or> (\<exists>s. v = CStr s)
      then Returns () (c\<lparr>emitted := emitted c @ field_records (director_records c company) ''],'' v\<rparr>)
      else Raises AttributeError c)"
  by (cases v) (simp_all add: parse_directors_def directors_loop_eq field_records_def)

lemma parse_founders_cases:
  "parse_founders c company v =
     (case v of
        CNone \<Rightarrow> Returns () c
      | CStr s \<Rightarrow> Returns () (c\<lparr>emitted := emitted c @ field_records (founder_records c company) ''),'' v\<rparr>)
      | COther r \<Rightarrow> Raises AttributeError c
      | _ \<Rightarrow> Returns () (c\<lparr>log := log c @ [Log Info (''last line: '' @ str_cell v) []]\<rparr>))"
  by (cases v) (simp_all add: parse_founders_def founders_loop_eq field_records_def write_log_def)

lemma parse_owners_cases:
  "parse_owners c company v =
     (case v of
        CNone \<Rightarrow> Returns () c
      | CStr s \<Rightarrow> Returns () (c\<lparr>emitted := emitted c @ field_records (owner_records c company) ''),'' v,
                                log := log c @ concat (map (owner_warnings c) (split s ''),''))\<rparr>)
      | _ \<Rightarrow> Raises AttributeError c)"
  by (cases v) (simp_all add: parse_owners_def owners_loop_eq field_records_def)

lemma parse_directors_Returns:
  assumes "parse_directors c company v = Returns u c'"
  shows "emitted c' = emitted c @ field_records (director_records c company) ''],'' v
         \<and> make_id c' = make_id c \<and> accepts c' = accepts c"
  using assms by (auto simp: parse_directors_cases split: if_splits)

lemma parse_founders_Returns:
  assumes "parse_founders c company v = Returns u c'"
  shows "emitted c' = emitted c @ field_records (founder_records c company) ''),'' v
         \<and> make_id c' = make_id c \<and> accepts c' = accepts c"
  using assms by (cases v) (auto simp: parse_founders_cases field_records_def)

lemma parse_owners_Returns:
  assumes "parse_owners c company v = Returns u c'"
  shows "emitted c' = emitted c @ field_records (owner_records c company) ''),'' v
         \<and> make_id c' = make_id c \<and> accepts c' = accepts c"
  using assms by (cases v) (auto simp: parse_owners_cases field_records_def)

lemma records_same_toolkit:
  assumes "make_id c' = make_id c" "accepts c' = accepts c"
  shows "founder_records c' company = founder_records c company"
    and "owner_records c' company = owner_records c company"
    and "director_records c' company = director_records c company"
  using assms
  by (auto simp: founder_records_def owner_records_def director_records_def legal_entity_def
        ownership_def owner_entity_def directorship_def fun_eq_iff)


lemma and_then_Returns:
  "and_then r rest = Returns u c' \<Longrightarrow> \<exists>v c1. r = Returns v c1 \<and> rest c1 = Returns u c'"
  by (cases r) (auto simp: and_then_def)

lemma parse_company_Returns:
  assumes r: "parse_company c data = Returns u c'"
  shows "(\<exists>idno name address.
            map_of data COL_IDNO = Some idno \<and> map_of data COL_NAME = Some name
            \<and> map_of data COL_ADDRESS = Some address
            \<and> company_key c idno name address = None
            \<and> c' = write_log c (Log Error ''Cannot generate key''
                      [(''idno'', idno), (''name'', name), (''address'', address)]))
       \<or> (\<exists>idno name address key inc dis lf dirs fnd.
            map_of data COL_IDNO = Some idno \<and> map_of data COL_NAME = Some name
            \<and> map_of data COL_ADDRESS = Some address
            \<and> company_key c idno name address = Some key
            \<and> map_of data COL_INCORPORATION = Some inc
            \<and> map_of data COL_DISSOLUTION = Some dis
            \<and> map_of data COL_LEGAL_FORM = Some lf
            \<and> map_of data COL_DIRECTORS = Some dirs
            \<and> map_of data COL_FOUNDERS = Some fnd
            \<and> emitted c' = emitted c
                 @ field_records (director_records c (company_record (Some key) idno name address inc dis lf)) ''],'' dirs
                 @ field_records (founder_records c (company_record (Some key) idno name address inc dis lf)) ''),'' fnd
                 @ field_records (owner_records c (company_record (Some key) idno name address inc dis lf)) ''),''
                     (case map_of data COL_OWNERS of None \<Rightarrow> CNone | Some v \<Rightarrow> v)
                 @ [company_record (Some key) idno name address inc dis lf])"
proof -
  obtain idno where i: "map_of data COL_IDNO = Some idno"
    using r parse_company_missing_0[of data c] by (cases "map_of data COL_IDNO") auto
  obtain name where n: "map_of data COL_NAME = Some name"
    using r parse_company_missing_1[OF i, of c] by (cases "map_of data COL_NAME") auto
  obtain address where a: "map_of data COL_ADDRESS = Some address"
    using r parse_company_missing_2[OF i n, of c] by (cases "map_of data COL_ADDRESS") auto
  show ?thesis
  proof (cases "company_key c idno name address")
    case None
    from parse_company_no_key[OF i n a None] r i n a None show ?thesis by auto
  next
    case (Some key)
    obtain inc where inc: "map_of data COL_INCORPORATION = Some inc"
      using r parse_company_missing_3[OF i n a Some] by (cases "map_of data COL_INCORPORATION") auto
    obtain dis where dis: "map_of data COL_DISSOLUTION = Some dis"
      using r parse_company_missing_4[OF i n a Some inc] by (cases "map_of data COL_DISSOLUTION") auto
    obtain lf where lf: "map_of data COL_LEGAL_FORM = Some lf"
      using r parse_company_missing_5[OF i n a Some inc dis] by (cases "map_of data COL_LEGAL_FORM") auto
    obtain dirs where dirs: "map_of data COL_DIRECTORS = Some dirs"
      using r parse_company_missing_6[OF i n a Some inc dis lf] by (cases "map_of data COL_DIRECTORS") auto
    let ?co = "company_record (Some key) idno name address inc dis lf"
    let ?own = "case map_of data COL_OWNERS of None \<Rightarrow> CNone | Some v \<Rightarrow> v"
    obtain fnd where fnd: "map_of data COL_FOUNDERS = Some fnd"
    proof (cases "map_of data COL_FOUNDERS")
      case None
      from parse_company_missing_7[OF i n a Some inc dis lf dirs None] r
      have False by (cases "parse_directors c ?co dirs") (auto simp: and_then_def)
      then show ?thesis ..
    next
      case (Some f) then show ?thesis using that by blast
    qed
    from parse_company_present[OF i n a Some inc dis lf dirs fnd] r
    have "and_then (parse_directors c ?co dirs) (\<lambda>c1.
           and_then (parse_founders c1 ?co fnd) (\<lambda>c2.
           and_then (parse_owners c2 ?co ?own) (\<lambda>c3.
           Returns () (audit_data (emit c3 ?co) (unread data) IGNORE_COLUMNS)))) = Returns u c'"
      by simp
    then obtain u1 c1 where d1: "parse_directors c ?co dirs = Returns u1 c1"
      and r1: "and_then (parse_founders c1 ?co fnd) (\<lambda>c2.
           and_then (parse_owners c2 ?co ?own) (\<lambda>c3.
           Returns () (audit_data (emit c3 ?co) (unread data) IGNORE_COLUMNS))) = Returns u c'"
      by (blast dest: and_then_Returns)
    from r1 obtain u2 c2 where d2: "parse_founders c1 ?co fnd = Returns u2 c2"
      and r2: "and_then (parse_owners c2 ?co ?own) (\<lambda>c3.
           Returns () (audit_data (emit c3 ?co) (unread data) IGNORE_COLUMNS)) = Returns u c'"
      by (blast dest: and_then_Returns)
    from r2 obtain u3 c3 where d3: "parse_owners c2 ?co ?own = Returns u3 c3"
      and r3: "Returns () (audit_data (emit c3 ?co) (unread data) IGNORE_COLUMNS) = Returns u c'"
      by (blast dest: and_then_Returns)
    note p1 = parse_directors_Returns[OF d1]
    note p2 = parse_founders_Returns[OF d2]
    note p3 = parse_owners_Returns[OF d3]
    have t1: "make_id c1 = make_id c" "accepts c1 = accepts c" using p1 by auto
    have t2: "make_id c2 = make_id c" "accepts c2 = accepts c" using p2 t1 by auto
    have "emitted c' = emitted c3 @ [?co]"
      using r3 by (auto simp: audit_data_def emit_def)
    then have "emitted c' = emitted c
                 @ field_records (director_records c ?co) ''],'' dirs
                 @ field_records (founder_records c ?co) ''),'' fnd
                 @ field_records (owner_records c ?co) ''),'' ?own
                 @ [?co]"
      using p1 p2 p3 records_same_toolkit[OF t1] records_same_toolkit[OF t2] by simp
    with i n a Some inc dis lf dirs fnd show ?thesis by blast
  qed
qed

subsection \<open>Directors\<close>

text \<open>
  Claim C8. \<open>parse_directors\<close> splits a string field at every \<open>],\<close> and emits, piece
  after piece, the records of the piece. Name and role of a piece: without a \<open>[\<close>
  the name is the stripped piece and there is no role; otherwise the piece is cut
  at its last \<open>[\<close>, the name is the stripped text before it and the role the text
  after it, without any \<open>]\<close> and stripped. The pieces, joined by \<open>],\<close>, give
  the field back, and none of them contains \<open>],\<close>. The field
  \<open>Ana Popescu [Director],Ion Rusu\<close> gives exactly two directors: Ana Popescu with
  the role Director and Ion Rusu with no role.
\<close>

theorem directors_name_and_role:
  "parse_directors c company (CStr s) =
     Returns () (c\<lparr>emitted := emitted c
        @ concat (map (director_records c company) (split s ''],''))\<rparr>)
   \<and> (CHR ''['' \<notin> set piece \<longrightarrow> split_role piece = (strip piece, CNone))
   \<and> (CHR ''['' \<notin> set b \<longrightarrow>
        split_role (a @ CHR ''['' # b)
          = (strip a, CStr (strip (filter (\<lambda>x. x \<noteq> CHR '']'') b))))
   \<and> parse_directors c company (CStr ''Ana Popescu [Director],Ion Rusu'') =
       Returns () (c\<lparr>emitted := emitted c
         @ [legal_entity c company ''Ana Popescu'',
            directorship c company ''Ana Popescu'' (CStr ''Director''),
            legal_entity c company ''Ion Rusu'',
            directorship c company ''Ion Rusu'' CNone]\<rparr>)
   \<and> join ''],'' (split s ''],'') = s
   \<and> (\<forall>p\<in>set (split s ''],''). \<not> contains p ''],'')"
proof -
  have "concat (map (director_records c company)
                  (split ''Ana Popescu [Director],Ion Rusu'' ''],''))
      = [legal_entity c company ''Ana Popescu'',
         directorship c company ''Ana Popescu'' (CStr ''Director''),
         legal_entity c company ''Ion Rusu'',
         directorship c company ''Ion Rusu'' CNone]"
    by (simp add: director_records_def string_eval)
  moreover have "\<forall>p\<in>set (split s ''],''). \<not> contains p ''],''"
    using split_free[of "''],''" _ s] by blast
  ultimately show ?thesis
    using parse_directors_eq[of c company] split_role_plain split_role_bracket
    by (simp add: field_records_def split_join)
qed

theorem directors_name_and_role_witness:
  "CHR ''['' \<notin> set ''Ion Rusu''
   \<and> split_role ''Ion Rusu'' = (''Ion Rusu'', CNone)
   \<and> CHR ''['' \<notin> set ''Director''
   \<and> split_role ''Ana Popescu [Director'' = (''Ana Popescu'', CStr ''Director'')
   \<and> map schema (emitted (context_of (parse_directors demo_context demo_company
                                           (CStr ''Ana Popescu [Director],Ion Rusu''))))
       = [''LegalEntity'', ''Directorship'', ''LegalEntity'', ''Directorship'']"
  using directors_name_and_role[of demo_context demo_company "[]" "''Ion Rusu''"
          "''Director''" "''Ana Popescu ''"]
  by (simp add: strip_def isspace_def legal_entity_def directorship_def demo_context_def)

text \<open>
  Claim C9. A piece of the directors field whose name, after the role is split off
  and the name stripped, has fewer than 3 characters yields no record at all: the
  context is left as it was. A piece with a name of 3 characters or more yields its
  LegalEntity and its Directorship, and the field yields the records of its pieces
  in order.
\<close>

theorem short_director_excluded:
  "parse_directors c company (CStr s) =
     Returns () (c\<lparr>emitted := emitted c
        @ concat (map (director_records c company) (split s ''],''))\<rparr>)
   \<and> (length (fst (split_role piece)) < 3 \<longrightarrow>
        director_records c company piece = [] \<and> parse_director c company piece = c)
   \<and> (3 \<le> length (fst (split_role piece)) \<longrightarrow>
        director_records c company piece =
          [legal_entity c company (fst (split_role piece)),
           directorship c company (fst (split_role piece)) (snd (split_role piece))]
        \<and> parse_director c company piece =
          c\<lparr>emitted := emitted c
            @ [legal_entity c company (fst (split_role piece)),
               directorship c company (fst (split_role piece)) (snd (split_role piece))]\<rparr>)"
  using parse_directors_eq[of c company s]
  by (simp add: field_records_def parse_director_eq director_records_def)

theorem short_director_excluded_witness:
  "length (fst (split_role ''Al [Director'')) < 3
   \<and> parse_director demo_context demo_company ''Al [Director'' = demo_context
   \<and> 3 \<le> length (fst (split_role ''Ana [Director]''))
   \<and> emitted (parse_director demo_context demo_company ''Ana [Director]'') =
       [legal_entity demo_context demo_company ''Ana'',
        directorship demo_context demo_company ''Ana'' (CStr ''Director'')]
   \<and> parse_directors demo_context demo_company (CStr ''Al [Director],Ana [Director]'') =
       Returns () (demo_context\<lparr>emitted :=
         [legal_entity demo_context demo_company ''Ana'',
          directorship demo_context demo_company ''Ana'' (CStr ''Director'')]\<rparr>)"
proof -
  have s1: "split_role ''Al [Director'' = (''Al'', CStr ''Director'')"
    by (simp add: string_eval)
  have s2: "split_role ''Ana [Director]'' = (''Ana'', CStr ''Director'')"
    by (simp add: string_eval)
  have sp: "split ''Al [Director],Ana [Director]'' ''],'' = [''Al [Director'', ''Ana [Director]'']"
    by (simp add: string_eval)
  have e: "emitted demo_context = []" by (simp add: demo_context_def)
  show ?thesis
    using short_director_excluded[of demo_context demo_company
            "''Al [Director],Ana [Director]''" "''Al [Director''"]
      short_director_excluded[of demo_context demo_company
            "''Al [Director],Ana [Director]''" "''Ana [Director]''"]
    by (simp add: s1 s2 sp e director_records_def)
qed

subsection \<open>A row without identity\<close>



subsection \<open>The sample rows\<close>

lemma str_1003600000000: "str_int 1003600000000 = ''1003600000000''"
  by (simp add: str_int_def str_nat.simps)

lemma demo_row_lookup:
  "map_of demo_row COL_IDNO = Some (CInt 1003600000000)"
  "map_of demo_row COL_NAME = Some (CStr ''Alfa SRL'')"
  "map_of demo_row COL_ADDRESS = Some (CStr ''Chisinau'')"
  "map_of demo_row COL_INCORPORATION = Some (CStr ''2001-05-17'')"
  "map_of demo_row COL_DISSOLUTION = Some CNone"
  "map_of demo_row COL_LEGAL_FORM = Some (CStr ''SRL'')"
  "map_of demo_row COL_DIRECTORS = Some (CStr ''Ana Popescu [Director]'')"
  "map_of demo_row COL_FOUNDERS = Some (CStr ''Ion Rusu (100%)'')"
  "map_of demo_row COL_OWNERS = None"
  by (simp_all add: demo_row_def COL_neq)

lemma demo_row_key:
  "company_key c (CInt 1003600000000) (CStr ''Alfa SRL'') (CStr ''Chisinau'')
     = Some ''oc-companies-md-1003600000000''"
  by (simp add: company_key_def str_1003600000000)

lemma demo_pieces:
  "split ''Ana Popescu [Director]'' ''],'' = [''Ana Popescu [Director]'']"
  "split_role ''Ana Popescu [Director]'' = (''Ana Popescu'', CStr ''Director'')"
  "split ''Ion Rusu (100%)'' ''),'' = [''Ion Rusu (100%)'']"
  "split_percentage ''Ion Rusu (100%)'' = (''Ion Rusu'', CStr ''100%'')"
  by (simp_all add: string_eval)

lemma demo_row_parsed:
  "parse_company c demo_row =
     Returns () (audit_data
       (emit (c\<lparr>emitted := emitted c @
                 [legal_entity c demo_row_company ''Ana Popescu'',
                  directorship c demo_row_company ''Ana Popescu'' (CStr ''Director''),
                  legal_entity c demo_row_company ''Ion Rusu'',
                  ownership c demo_row_company ''Ion Rusu'' (CStr ''100%'')]\<rparr>)
          demo_row_company)
       (unread demo_row) IGNORE_COLUMNS)"
proof -
  let ?co = demo_row_company
  let ?c1 = "c\<lparr>emitted := emitted c @
                 [legal_entity c ?co ''Ana Popescu'',
                  directorship c ?co ''Ana Popescu'' (CStr ''Director'')]\<rparr>"
  have d: "parse_directors c ?co (CStr ''Ana Popescu [Director]'') = Returns () ?c1"
    by (simp add: parse_directors_eq field_records_def director_records_def demo_pieces)
  have same: "founder_records ?c1 ?co = founder_records c ?co"
    by (rule records_same_toolkit) simp_all
  have f: "parse_founders ?c1 ?co (CStr ''Ion Rusu (100%)'') =
      Returns () (c\<lparr>emitted := emitted c @
                 [legal_entity c ?co ''Ana Popescu'',
                  directorship c ?co ''Ana Popescu'' (CStr ''Director''),
                  legal_entity c ?co ''Ion Rusu'',
                  ownership c ?co ''Ion Rusu'' (CStr ''100%'')]\<rparr>)"
    by (simp add: parse_founders_cases field_records_def same demo_pieces founder_records_def)
  show ?thesis
    unfolding parse_company_present[OF demo_row_lookup(1-3) demo_row_key demo_row_lookup(4-8)]
      demo_row_lookup(9) demo_row_company_def[symmetric]
    by (simp add: d f and_then_def parse_owners_cases)
qed


lemma demo_row_no_idno_lookup:
  "map_of demo_row_no_idno COL_IDNO = Some CNone"
  "map_of demo_row_no_idno COL_NAME = Some (CStr ''Alfa SRL'')"
  "map_of demo_row_no_idno COL_ADDRESS = Some (CStr ''Chisinau'')"
  "map_of demo_row_no_idno COL_INCORPORATION = Some (CStr ''2001-05-17'')"
  "map_of demo_row_no_idno COL_DISSOLUTION = Some CNone"
  "map_of demo_row_no_idno COL_LEGAL_FORM = Some (CStr ''SRL'')"
  "map_of demo_row_no_idno COL_DIRECTORS = Some CNone"
  "map_of demo_row_no_idno COL_FOUNDERS = Some CNone"
  "map_of demo_row_no_idno COL_OWNERS = None"
  by (simp_all add: demo_row_no_idno_def COL_neq)

lemma demo_row_no_idno_parsed:
  assumes "make_id c [CStr ''Alfa SRL'', CStr ''Chisinau''] = Some key"
  shows "parse_company c demo_row_no_idno =
     Returns () (audit_data
       (emit c (company_record (Some key) CNone (CStr ''Alfa SRL'') (CStr ''Chisinau'')
                  (CStr ''2001-05-17'') CNone (CStr ''SRL'')))
       (unread demo_row_no_idno) IGNORE_COLUMNS)"
proof -
  have k: "company_key c CNone (CStr ''Alfa SRL'') (CStr ''Chisinau'') = Some key"
    using assms by (simp add: company_key_def)
  show ?thesis
    unfolding parse_company_present[OF demo_row_no_idno_lookup(1-3) k demo_row_no_idno_lookup(4-8)]
      demo_row_no_idno_lookup(9)
    by (simp add: and_then_def parse_directors_cases parse_founders_cases parse_owners_cases
          field_records_def)
qed

subsection \<open>The Company of a row and the records of its fields\<close>

lemma company_of_row:
  assumes r: "parse_company c data = Returns u c'"
    and i: "map_of data COL_IDNO = Some idno"
    and n: "map_of data COL_NAME = Some name"
    and a: "map_of data COL_ADDRESS = Some address"
  shows "case company_key c idno name address of
           None \<Rightarrow> emitted c' = emitted c
         | Some key \<Rightarrow> emitted c' \<noteq> [] \<and> schema (last (emitted c')) = ''Company''
                       \<and> eid (last (emitted c')) = Some key"
  using parse_company_Returns[OF r] i n a
  by (auto simp: write_log_def company_record_def)








subsection \<open>The identity of a Company\<close>

text \<open>
  Claim C3. When \<open>parse_company\<close> returns for a row whose tax id is not null, the
  Company it emitted (the last record of the stream) has the id \<open>oc-companies-md-\<close>
  followed by the tax id, whatever name and address are. When the tax id is null
  the id is \<open>make_id(name, address)\<close>, so a second row with the same name and
  address, parsed with the same id generator, gets the same id; when that id is
  null too nothing is emitted.
\<close>

theorem company_identity:
  assumes "parse_company c data = Returns u c'"
    and "map_of data COL_IDNO = Some idno"
    and "map_of data COL_NAME = Some name"
    and "map_of data COL_ADDRESS = Some address"
  shows "(idno \<noteq> CNone \<longrightarrow>
            emitted c' \<noteq> [] \<and> schema (last (emitted c')) = ''Company''
            \<and> eid (last (emitted c')) = Some (''oc-companies-md-'' @ str_cell idno))
       \<and> (idno = CNone \<longrightarrow> make_id c [name, address] \<noteq> None \<longrightarrow>
            emitted c' \<noteq> [] \<and> schema (last (emitted c')) = ''Company''
            \<and> eid (last (emitted c')) = make_id c [name, address])
       \<and> (idno = CNone \<longrightarrow> make_id c [name, address] = None \<longrightarrow> emitted c' = emitted c)
       \<and> (\<forall>c2 data2 u2 c2'.
             idno = CNone \<and> make_id c [name, address] \<noteq> None
             \<and> make_id c2 = make_id c
             \<and> parse_company c2 data2 = Returns u2 c2'
             \<and> map_of data2 COL_IDNO = Some CNone
             \<and> map_of data2 COL_NAME = Some name
             \<and> map_of data2 COL_ADDRESS = Some address
             \<longrightarrow> eid (last (emitted c2')) = eid (last (emitted c')))"
proof -
  note row = company_of_row[OF assms]
  have two: "eid (last (emitted c2')) = eid (last (emitted c'))"
    if "idno = CNone" "make_id c [name, address] \<noteq> None" "make_id c2 = make_id c"
      "parse_company c2 data2 = Returns u2 c2'" "map_of data2 COL_IDNO = Some CNone"
      "map_of data2 COL_NAME = Some name" "map_of data2 COL_ADDRESS = Some address"
    for c2 data2 u2 c2'
    using row company_of_row[OF that(4) that(5) that(6) that(7)] that(1,2,3)
    by (auto simp: company_key_def)
  from row two show ?thesis
    by (auto simp: company_key_def split: option.splits)
qed

theorem company_identity_witness:
  "eid (last (emitted (context_of (parse_company demo_context demo_row))))
     = Some ''oc-companies-md-1003600000000''
   \<and> eid (last (emitted (context_of (parse_company demo_context demo_row_no_idno))))
     = make_id demo_context [CStr ''Alfa SRL'', CStr ''Chisinau'']
   \<and> make_id demo_context [CStr ''Alfa SRL'', CStr ''Chisinau''] = Some ''#Alfa SRL#Chisinau''"
proof -
  have r: "parse_company demo_context demo_row
     = Returns () (context_of (parse_company demo_context demo_row))"
    by (simp add: demo_row_parsed)
  have m: "make_id demo_context [CStr ''Alfa SRL'', CStr ''Chisinau''] = Some ''#Alfa SRL#Chisinau''"
    by (simp add: demo_context_def demo_make_id_def)
  have r2: "parse_company demo_context demo_row_no_idno
     = Returns () (context_of (parse_company demo_context demo_row_no_idno))"
    by (simp add: demo_row_no_idno_parsed[OF m])
  show ?thesis
    using company_identity[OF r demo_row_lookup(1-3)]
      company_identity[OF r2 demo_row_no_idno_lookup(1-3)] m
    by (simp add: str_1003600000000)
qed

subsection \<open>Missing columns\<close>

lemma map_of_snoc_other:
  "k \<noteq> k' \<Longrightarrow> map_of (d @ [(k', v)]) k = map_of d k"
  by (induction d) auto

lemma map_of_snoc_absent:
  "map_of d k = None \<Longrightarrow> map_of (d @ [(k, v)]) k = Some v"
  by (induction d) (auto split: if_splits)

lemma unread_snoc_owners: "unread (data @ [(COL_OWNERS, v)]) = unread data"
  by (simp add: unread_def)

lemma parse_company_owners_default:
  assumes "map_of data COL_OWNERS = None"
  shows "parse_company c (data @ [(COL_OWNERS, CNone)]) = parse_company c data"
proof -
  let ?d = "data @ [(COL_OWNERS, CNone)]"
  have lk: "k \<noteq> COL_OWNERS \<Longrightarrow> map_of ?d k = map_of data k" for k
    by (rule map_of_snoc_other)
  have o': "map_of ?d COL_OWNERS = Some CNone"
    using assms by (rule map_of_snoc_absent)
  have un: "unread ?d = unread data" by (rule unread_snoc_owners)
  show ?thesis
  proof (cases "map_of data COL_IDNO")
    case None
    have m': "map_of ?d COL_IDNO = None" using None by (simp add: lk COL_neq[symmetric])
    show ?thesis
      unfolding parse_company_missing_0[OF  m'] parse_company_missing_0[OF  None] ..
  next
    case (Some idno)
    note p0 = Some
    have p0': "map_of ?d COL_IDNO = Some idno" using Some by (simp add: lk COL_neq[symmetric])
    show ?thesis
    proof (cases "map_of data COL_NAME")
      case None
      have m': "map_of ?d COL_NAME = None" using None by (simp add: lk COL_neq[symmetric])
      show ?thesis
        unfolding parse_company_missing_1[OF p0' m'] parse_company_missing_1[OF p0 None] ..
    next
      case (Some name)
      note p1 = Some
      have p1': "map_of ?d COL_NAME = Some name" using Some by (simp add: lk COL_neq[symmetric])
      show ?thesis
      proof (cases "map_of data COL_ADDRESS")
        case None
        have m': "map_of ?d COL_ADDRESS = None" using None by (simp add: lk COL_neq[symmetric])
        show ?thesis
          unfolding parse_company_missing_2[OF p0' p1' m'] parse_company_missing_2[OF p0 p1 None] ..
      next
        case (Some address)
        note p2 = Some
        have p2': "map_of ?d COL_ADDRESS = Some address" using Some by (simp add: lk COL_neq[symmetric])
        show ?thesis
        proof (cases "company_key c idno name address")
          case None
          show ?thesis
            unfolding parse_company_no_key[OF p0' p1' p2' None] parse_company_no_key[OF p0 p1 p2 None] ..
        next
          case (Some key)
          note k = Some
          show ?thesis
          proof (cases "map_of data COL_INCORPORATION")
            case None
            have m': "map_of ?d COL_INCORPORATION = None" using None by (simp add: lk COL_neq[symmetric])
            show ?thesis
              unfolding parse_company_missing_3[OF p0' p1' p2' k m'] parse_company_missing_3[OF p0 p1 p2 k None] ..
          next
            case (Some inc)
            note p3 = Some
            have p3': "map_of ?d COL_INCORPORATION = Some inc" using Some by (simp add: lk COL_neq[symmetric])
            show ?thesis
            proof (cases "map_of data COL_DISSOLUTION")
              case None
              have m': "map_of ?d COL_DISSOLUTION = None" using None by (simp add: lk COL_neq[symmetric])
              show ?thesis
                unfolding parse_company_missing_4[OF p0' p1' p2' k p3' m'] parse_company_missing_4[OF p0 p1 p2 k p3 None] ..
            next
              case (Some dis)
              note p4 = Some
              have p4': "map_of ?d COL_DISSOLUTION = Some dis" using Some by (simp add: lk COL_neq[symmetric])
              show ?thesis
              proof (cases "map_of data COL_LEGAL_FORM")
                case None
                have m': "map_of ?d COL_LEGAL_FORM = None" using None by (simp add: lk COL_neq[symmetric])
                show ?thesis
                  unfolding parse_company_missing_5[OF p0' p1' p2' k p3' p4' m'] parse_company_missing_5[OF p0 p1 p2 k p3 p4 None] ..
              next
                case (Some lf)
                note p5 = Some
                have p5': "map_of ?d COL_LEGAL_FORM = Some lf" using Some by (simp add: lk COL_neq[symmetric])
                show ?thesis
                proof (cases "map_of data COL_DIRECTORS")
                  case None
                  have m': "map_of ?d COL_DIRECTORS = None" using None by (simp add: lk COL_neq[symmetric])
                  show ?thesis
                    unfolding parse_company_missing_6[OF p0' p1' p2' k p3' p4' p5' m'] parse_company_missing_6[OF p0 p1 p2 k p3 p4 p5 None] ..
                next
                  case (Some dirs)
                  note p6 = Some
                  have p6': "map_of ?d COL_DIRECTORS = Some dirs" using Some by (simp add: lk COL_neq[symmetric])
                  show ?thesis
                  proof (cases "map_of data COL_FOUNDERS")
                    case None
                    have m': "map_of ?d COL_FOUNDERS = None" using None by (simp add: lk COL_neq[symmetric])
                    show ?thesis
                      unfolding parse_company_missing_7[OF p0' p1' p2' k p3' p4' p5' p6' m'] parse_company_missing_7[OF p0 p1 p2 k p3 p4 p5 p6 None] ..
                  next
                    case (Some fnd)
                    note p7 = Some
                    have p7': "map_of ?d COL_FOUNDERS = Some fnd" using Some by (simp add: lk COL_neq[symmetric])
                    show ?thesis
                      unfolding parse_company_present[OF p0' p1' p2' k p3' p4' p5' p6' p7'] parse_company_present[OF p0 p1 p2 k p3 p4 p5 p6 p7] o' assms un
                      by simp
                  qed
                qed
              qed
            qed
          qed
        qed
      qed
    qed
  qed
qed

lemma first_three_missing:
  assumes "map_of data COL_IDNO = None \<or> map_of data COL_NAME = None
           \<or> map_of data COL_ADDRESS = None"
  shows "\<exists>k. map_of data k = None \<and> parse_company c data = Raises (KeyError k) c"
proof (cases "map_of data COL_IDNO")
  case None
  then show ?thesis using parse_company_missing_0 by blast
next
  case (Some idno)
  note p0 = Some
  show ?thesis
  proof (cases "map_of data COL_NAME")
    case None
    then show ?thesis using parse_company_missing_1[OF p0] by blast
  next
    case (Some name)
    with assms p0 have "map_of data COL_ADDRESS = None" by auto
    then show ?thesis using parse_company_missing_2[OF p0 Some] by blast
  qed
qed

lemma later_four_missing:
  assumes p0: "map_of data COL_IDNO = Some idno"
    and p1: "map_of data COL_NAME = Some name"
    and p2: "map_of data COL_ADDRESS = Some address"
    and k: "company_key c idno name address = Some key"
    and m: "map_of data COL_INCORPORATION = None \<or> map_of data COL_DISSOLUTION = None
            \<or> map_of data COL_LEGAL_FORM = None \<or> map_of data COL_DIRECTORS = None"
  shows "\<exists>k. map_of data k = None \<and> parse_company c data = Raises (KeyError k) c"
proof (cases "map_of data COL_INCORPORATION")
  case None
  then show ?thesis using parse_company_missing_3[OF p0 p1 p2 k] by blast
next
  case (Some inc)
  note p3 = Some
  show ?thesis
  proof (cases "map_of data COL_DISSOLUTION")
    case None
    then show ?thesis using parse_company_missing_4[OF p0 p1 p2 k p3] by blast
  next
    case (Some dis)
    note p4 = Some
    show ?thesis
    proof (cases "map_of data COL_LEGAL_FORM")
      case None
      then show ?thesis using parse_company_missing_5[OF p0 p1 p2 k p3 p4] by blast
    next
      case (Some lf)
      with m p3 p4 have "map_of data COL_DIRECTORS = None" by auto
      then show ?thesis using parse_company_missing_6[OF p0 p1 p2 k p3 p4 Some] by blast
    qed
  qed
qed

text \<open>
  Claim C10, as the code has it. A row without tax id, name or address column
  raises KeyError for a missing column. A row that has the three and an identity,
  and lacks the incorporation date, dissolution date, legal form or directors
  column, raises KeyError for a missing column. A row that lacks only the founders
  column raises KeyError for it once the directors are parsed, which takes a
  directors cell that is null or a string (any other value raises AttributeError
  before). The owners column is optional: a row without it is parsed as the same
  row with a null owners cell, for which \<open>parse_owners\<close> emits nothing.
\<close>

theorem missing_columns:
  "(map_of data COL_IDNO = None \<or> map_of data COL_NAME = None
      \<or> map_of data COL_ADDRESS = None \<longrightarrow>
      (\<exists>k. map_of data k = None \<and> parse_company c data = Raises (KeyError k) c))
   \<and> (map_of data COL_IDNO = Some idno \<and> map_of data COL_NAME = Some name
      \<and> map_of data COL_ADDRESS = Some address
      \<and> company_key c idno name address = Some key
      \<and> (map_of data COL_INCORPORATION = None \<or> map_of data COL_DISSOLUTION = None
           \<or> map_of data COL_LEGAL_FORM = None \<or> map_of data COL_DIRECTORS = None) \<longrightarrow>
      (\<exists>k. map_of data k = None \<and> parse_company c data = Raises (KeyError k) c))
   \<and> (map_of data COL_IDNO = Some idno \<and> map_of data COL_NAME = Some name
      \<and> map_of data COL_ADDRESS = Some address
      \<and> company_key c idno name address = Some key
      \<and> map_of data COL_INCORPORATION = Some inc \<and> map_of data COL_DISSOLUTION = Some dis
      \<and> map_of data COL_LEGAL_FORM = Some lf \<and> map_of data COL_DIRECTORS = Some dirs
      \<and> map_of data COL_FOUNDERS = None \<longrightarrow>
      (if dirs = CNone \<or> (\<exists>s. dirs = CStr s)
       then \<exists>c1. parse_company c data = Raises (KeyError COL_FOUNDERS) c1
       else parse_company c data = Raises AttributeError c))
   \<and> (map_of data COL_OWNERS = None \<longrightarrow>
        parse_company c (data @ [(COL_OWNERS, CNone)]) = parse_company c data)
   \<and> parse_owners c company CNone = Returns () c"
proof -
  have c: "if dirs = CNone \<or> (\<exists>s. dirs = CStr s)
       then \<exists>c1. parse_company c data = Raises (KeyError COL_FOUNDERS) c1
       else parse_company c data = Raises AttributeError c"
    if "map_of data COL_IDNO = Some idno" "map_of data COL_NAME = Some name"
      "map_of data COL_ADDRESS = Some address" "company_key c idno name address = Some key"
      "map_of data COL_INCORPORATION = Some inc" "map_of data COL_DISSOLUTION = Some dis"
      "map_of data COL_LEGAL_FORM = Some lf" "map_of data COL_DIRECTORS = Some dirs"
      "map_of data COL_FOUNDERS = None"
    unfolding parse_company_missing_7[OF that]
    by (auto simp: parse_directors_cases and_then_def)
  have d: "parse_owners c company CNone = Returns () c"
    by (simp add: parse_owners_def)
  show ?thesis
    using first_three_missing[of data c] later_four_missing[of data idno name address c key]
      c parse_company_owners_default[of data c] d
    by blast
qed

theorem missing_columns_witness:
  "(\<exists>k. map_of [] k = None
          \<and> parse_company demo_context [] = Raises (KeyError k) demo_context)
   \<and> (\<exists>k. map_of (take 3 demo_row) k = None
          \<and> parse_company demo_context (take 3 demo_row) = Raises (KeyError k) demo_context)
   \<and> (\<exists>c1. parse_company demo_context (take 7 demo_row) = Raises (KeyError COL_FOUNDERS) c1)
   \<and> map_of demo_row COL_OWNERS = None
   \<and> parse_company demo_context (demo_row @ [(COL_OWNERS, CNone)])
       = parse_company demo_context demo_row
   \<and> parse_owners demo_context demo_company CNone = Returns () demo_context"
proof -
  have l3: "map_of (take 3 demo_row) COL_IDNO = Some (CInt 1003600000000)"
    "map_of (take 3 demo_row) COL_NAME = Some (CStr ''Alfa SRL'')"
    "map_of (take 3 demo_row) COL_ADDRESS = Some (CStr ''Chisinau'')"
    "map_of (take 3 demo_row) COL_INCORPORATION = None"
    by (simp_all add: demo_row_def COL_neq)
  have l7: "map_of (take 7 demo_row) COL_IDNO = Some (CInt 1003600000000)"
    "map_of (take 7 demo_row) COL_NAME = Some (CStr ''Alfa SRL'')"
    "map_of (take 7 demo_row) COL_ADDRESS = Some (CStr ''Chisinau'')"
    "map_of (take 7 demo_row) COL_INCORPORATION = Some (CStr ''2001-05-17'')"
    "map_of (take 7 demo_row) COL_DISSOLUTION = Some CNone"
    "map_of (take 7 demo_row) COL_LEGAL_FORM = Some (CStr ''SRL'')"
    "map_of (take 7 demo_row) COL_DIRECTORS = Some (CStr ''Ana Popescu [Director]'')"
    "map_of (take 7 demo_row) COL_FOUNDERS = None"
    by (simp_all add: demo_row_def COL_neq)
  have a: "\<exists>k. map_of [] k = None \<and> parse_company demo_context [] = Raises (KeyError k) demo_context"
    using missing_columns[of "[]" demo_context] by simp
  have b: "\<exists>k. map_of (take 3 demo_row) k = None
          \<and> parse_company demo_context (take 3 demo_row) = Raises (KeyError k) demo_context"
    using missing_columns[of "take 3 demo_row" demo_context "CInt 1003600000000"
        "CStr ''Alfa SRL''" "CStr ''Chisinau''" "''oc-companies-md-1003600000000''"]
      l3 demo_row_key[of demo_context]
    by simp
  have c: "\<exists>c1. parse_company demo_context (take 7 demo_row) = Raises (KeyError COL_FOUNDERS) c1"
    using missing_columns[of "take 7 demo_row" demo_context "CInt 1003600000000"
        "CStr ''Alfa SRL''" "CStr ''Chisinau''" "''oc-companies-md-1003600000000''"
        "CStr ''2001-05-17''" CNone "CStr ''SRL''" "CStr ''Ana Popescu [Director]''"]
      l7 demo_row_key[of demo_context]
    by simp
  have d: "parse_company demo_context (demo_row @ [(COL_OWNERS, CNone)])
       = parse_company demo_context demo_row"
    using missing_columns[of demo_row demo_context] demo_row_lookup(9) by simp
  have e: "parse_owners demo_context demo_company CNone = Returns () demo_context"
    using missing_columns[of demo_row demo_context _ _ _ _ _ _ _ _ demo_company] by simp
  from a b c d e demo_row_lookup(9) show ?thesis by blast
qed

text \<open>
  Claim C10 as stated fails: a row with null tax id, name and address for which
  \<open>make_id\<close> gives no id lacks the other columns and still raises nothing: it is
  logged and skipped before they are read.
\<close>

theorem missing_columns_counterexample:
  "map_of demo_row_bare COL_INCORPORATION = None
   \<and> map_of demo_row_bare COL_DISSOLUTION = None
   \<and> map_of demo_row_bare COL_LEGAL_FORM = None
   \<and> map_of demo_row_bare COL_DIRECTORS = None
   \<and> map_of demo_row_bare COL_FOUNDERS = None
   \<and> parse_company demo_context demo_row_bare =
       Returns () (demo_context\<lparr>log :=
         [Log Error ''Cannot generate key''
            [(''idno'', CNone), (''name'', CNone), (''address'', CNone)]]\<rparr>)"
proof -
  have k: "company_key demo_context CNone CNone CNone = None"
    by (simp add: company_key_def demo_context_def demo_make_id_def)
  have l: "map_of demo_row_bare COL_IDNO = Some CNone" "map_of demo_row_bare COL_NAME = Some CNone"
    "map_of demo_row_bare COL_ADDRESS = Some CNone"
    by (simp_all add: demo_row_bare_def COL_neq)
  have "log demo_context = []" by (simp add: demo_context_def)
  then show ?thesis
    unfolding parse_company_no_key[OF l k]
    by (simp add: demo_row_bare_def COL_neq write_log_def)
qed


subsection \<open>Founders\<close>

lemma split_percentage_plain:
  "CHR ''('' \<notin> set piece \<Longrightarrow>
     split_percentage piece = (strip (filter (\<lambda>x. x \<noteq> CHR '')'') piece), CNone)"
proof -
  assume "CHR ''('' \<notin> set piece"
  then have "rsplit1 (filter (\<lambda>x. x \<noteq> CHR '')'') piece) CHR ''('' = None"
    by (simp add: rsplit1_None_iff)
  then show ?thesis by (simp add: split_percentage_def replace_empty_def)
qed

lemma split_percentage_bracket:
  "filter (\<lambda>x. x \<noteq> CHR '')'') piece = a @ CHR ''('' # b \<Longrightarrow> CHR ''('' \<notin> set b \<Longrightarrow>
     split_percentage piece = (strip a, CStr b)"
  by (simp add: split_percentage_def replace_empty_def rsplit1_append)

lemma parse_founders_eq:
  "parse_founders c company (CStr s) =
     Returns () (c\<lparr>emitted := emitted c
       @ concat (map (founder_records c company) (split s ''),''))\<rparr>)"
  by (simp add: parse_founders_def founders_loop_eq)

text \<open>
  Claim C7, as the code has it. \<open>parse_founders\<close> splits a string field at every
  \<open>),\<close> (the pieces, joined by \<open>),\<close>, give the field back, and none contains
  \<open>),\<close>) and emits, piece after piece, the records of the piece. In a piece every
  \<open>)\<close> is removed, not only a trailing one; without a \<open>(\<close> the name is what is
  left, stripped, and there is no role; otherwise the text is cut at its last \<open>(\<close>,
  the name is the stripped text before it and the role the text after it. A piece
  whose name is empty is skipped: nothing is emitted for it. Any other piece yields
  a LegalEntity and an Ownership with that role. The field
  \<open>SRL Alfa (50%),SRL Beta (50%)\<close> yields two Ownership records with the role
  \<open>50%\<close> each.
\<close>

theorem founders_name_and_percentage:
  "parse_founders c company (CStr s) =
     Returns () (c\<lparr>emitted := emitted c
        @ concat (map (founder_records c company) (split s ''),''))\<rparr>)
   \<and> (CHR ''('' \<notin> set piece \<longrightarrow>
        split_percentage piece = (strip (filter (\<lambda>x. x \<noteq> CHR '')'') piece), CNone))
   \<and> (filter (\<lambda>x. x \<noteq> CHR '')'') piece = a @ CHR ''('' # b \<and> CHR ''('' \<notin> set b \<longrightarrow>
        split_percentage piece = (strip a, CStr b))
   \<and> (fst (split_percentage piece) = [] \<longrightarrow>
        founder_records c company piece = [] \<and> parse_founder c company piece = c)
   \<and> (fst (split_percentage piece) \<noteq> [] \<longrightarrow>
        founder_records c company piece =
          [legal_entity c company (fst (split_percentage piece)),
           ownership c company (fst (split_percentage piece)) (snd (split_percentage piece))]
        \<and> parse_founder c company piece =
          c\<lparr>emitted := emitted c
            @ [legal_entity c company (fst (split_percentage piece)),
               ownership c company (fst (split_percentage piece))
                 (snd (split_percentage piece))]\<rparr>)
   \<and> parse_founders c company (CStr ''SRL Alfa (50%),SRL Beta (50%)'') =
       Returns () (c\<lparr>emitted := emitted c
         @ [legal_entity c company ''SRL Alfa'',
            ownership c company ''SRL Alfa'' (CStr ''50%''),
            legal_entity c company ''SRL Beta'',
            ownership c company ''SRL Beta'' (CStr ''50%'')]\<rparr>)
   \<and> join ''),'' (split s ''),'') = s
   \<and> (\<forall>p\<in>set (split s ''),''). \<not> contains p ''),'')"
proof -
  have sp: "split ''SRL Alfa (50%),SRL Beta (50%)'' ''),'' = [''SRL Alfa (50%'', ''SRL Beta (50%)'']"
    by (simp add: string_eval)
  have p1: "split_percentage ''SRL Alfa (50%'' = (''SRL Alfa'', CStr ''50%'')"
    by (simp add: string_eval)
  have p2: "split_percentage ''SRL Beta (50%)'' = (''SRL Beta'', CStr ''50%'')"
    by (simp add: string_eval)
  have ex: "parse_founders c company (CStr ''SRL Alfa (50%),SRL Beta (50%)'') =
          Returns () (c\<lparr>emitted := emitted c
            @ [legal_entity c company ''SRL Alfa'',
               ownership c company ''SRL Alfa'' (CStr ''50%''),
               legal_entity c company ''SRL Beta'',
               ownership c company ''SRL Beta'' (CStr ''50%'')]\<rparr>)"
    by (simp add: parse_founders_eq sp founder_records_def p1 p2)
  have fr: "\<forall>p\<in>set (split s ''),''). \<not> contains p ''),''"
    using split_free[of "''),''" _ s] by blast
  show ?thesis
    using parse_founders_eq[of c company s] split_percentage_plain[of piece]
      split_percentage_bracket[of piece a b] ex fr
    by (simp add: parse_founder_eq founder_records_def split_join)
qed

theorem founders_name_and_percentage_witness:
  "parse_founders demo_context demo_company (CStr ''SRL Alfa (50%),SRL Beta (50%)'') =
     Returns () (demo_context\<lparr>emitted :=
       [legal_entity demo_context demo_company ''SRL Alfa'',
        ownership demo_context demo_company ''SRL Alfa'' (CStr ''50%''),
        legal_entity demo_context demo_company ''SRL Beta'',
        ownership demo_context demo_company ''SRL Beta'' (CStr ''50%'')]\<rparr>)
   \<and> split_percentage ''SRL Beta (50%)'' = (''SRL Beta'', CStr ''50%'')
   \<and> split_percentage ''SRL Gama'' = (''SRL Gama'', CNone)
   \<and> split_percentage '' (50%)'' = ([], CStr ''50%'')
   \<and> parse_founder demo_context demo_company '' (50%)'' = demo_context
   \<and> emitted (parse_founder demo_context demo_company ''SRL Gama'') =
       [legal_entity demo_context demo_company ''SRL Gama'',
        ownership demo_context demo_company ''SRL Gama'' CNone]"
proof -
  have e: "emitted demo_context = []" by (simp add: demo_context_def)
  have f: "filter (\<lambda>x. x \<noteq> CHR '')'') ''SRL Beta (50%)'' = ''SRL Beta '' @ CHR ''('' # ''50%''"
    by simp
  have s0: "split_percentage '' (50%)'' = ([], CStr ''50%'')"
    by (simp add: string_eval)
  have s1: "strip ''SRL Beta '' = ''SRL Beta''" "strip ''SRL Gama'' = ''SRL Gama''"
    by (simp_all add: strip_def isspace_def)
  show ?thesis
    using founders_name_and_percentage[of demo_context demo_company "[]" "''SRL Beta (50%)''"
        "''SRL Beta ''" "''50%''"]
      founders_name_and_percentage[of demo_context demo_company "[]" "''SRL Gama''" "[]" "[]"]
      founders_name_and_percentage[of demo_context demo_company "[]" "'' (50%)''" "[]" "[]"]
    by (simp add: e s0 s1)
qed

text \<open>
  Claim C7 as stated fails: it has only the trailing \<open>)\<close> stripped. For the founder
  \<open>Firma (MD) SRL (50%)\<close> that would leave the name \<open>Firma (MD) SRL\<close>; the parser
  removes every \<open>)\<close> and emits the name \<open>Firma (MD SRL\<close>.
\<close>

theorem founders_trailing_bracket_counterexample:
  "split_percentage ''Firma (MD) SRL (50%)'' = (''Firma (MD SRL'', CStr ''50%'')
   \<and> claimed_split_percentage ''Firma (MD) SRL (50%)'' = (''Firma (MD) SRL'', CStr ''50%'')
   \<and> split_percentage ''Firma (MD) SRL (50%)'' \<noteq> claimed_split_percentage ''Firma (MD) SRL (50%)''
   \<and> parse_founders demo_context demo_company (CStr ''Firma (MD) SRL (50%)'') =
       Returns () (demo_context\<lparr>emitted :=
         [legal_entity demo_context demo_company ''Firma (MD SRL'',
          ownership demo_context demo_company ''Firma (MD SRL'' (CStr ''50%'')]\<rparr>)"
proof -
  have e: "emitted demo_context = []" by (simp add: demo_context_def)
  have s: "split_percentage ''Firma (MD) SRL (50%)'' = (''Firma (MD SRL'', CStr ''50%'')"
    by (simp add: string_eval)
  have c: "claimed_split_percentage ''Firma (MD) SRL (50%)'' = (''Firma (MD) SRL'', CStr ''50%'')"
    by (simp add: claimed_split_percentage_def strip_def isspace_def)
  have sp: "split ''Firma (MD) SRL (50%)'' ''),'' = [''Firma (MD) SRL (50%)'']"
    by (simp add: string_eval)
  show ?thesis
    by (simp add: s c parse_founders_eq sp founder_records_def e)
qed


subsection \<open>Dates, the latest link and the loop over the links\<close>

lemma tuple_less_trans:
  "tuple_less a b \<Longrightarrow> tuple_less b c \<Longrightarrow> tuple_less a c"
proof (induction a b arbitrary: c rule: tuple_less.induct)
  case (1 x xs y ys)
  then show ?case by (cases c) auto
next
  case (2 y ys)
  then show ?case by (cases c) auto
next
  case (3 xs)
  then show ?case by simp
qed

lemma tuple_less_total:
  "length a = length b \<Longrightarrow> \<not> tuple_less a b \<Longrightarrow> a \<noteq> b \<Longrightarrow> tuple_less b a"
proof (induction a b rule: tuple_less.induct)
  case (1 x xs y ys)
  then show ?case by auto
next
  case (2 y ys)
  then show ?case by simp
next
  case (3 xs)
  then show ?case by simp
qed

lemma datetime_less_trans:
  "datetime_less a b \<Longrightarrow> datetime_less b c \<Longrightarrow> datetime_less a c"
  unfolding datetime_less_def by (rule tuple_less_trans)

text \<open>Not later, then earlier or at the same moment.\<close>

lemma datetime_not_less:
  assumes "\<not> datetime_less a b"
  shows "datetime_less b a \<or> datetime_tuple a = datetime_tuple b"
proof -
  have "length (datetime_tuple a) = length (datetime_tuple b)"
    by (simp add: datetime_tuple_def)
  with assms tuple_less_total[of "datetime_tuple a" "datetime_tuple b"] show ?thesis
    unfolding datetime_less_def by blast
qed

lemma datetime_less_le_trans:
  assumes "\<not> datetime_less b x" "datetime_less b m"
  shows "datetime_less x m"
proof -
  from datetime_not_less[OF assms(1)] show ?thesis
  proof
    assume "datetime_less x b"
    then show ?thesis using assms(2) by (rule datetime_less_trans)
  next
    assume "datetime_tuple b = datetime_tuple x"
    then show ?thesis using assms(2) by (simp add: datetime_less_def)
  qed
qed

lemma max_from_first:
  "\<exists>pre post. best # xs = pre @ max_from best xs # post
     \<and> (\<forall>x\<in>set pre. datetime_less (fst x) (fst (max_from best xs)))
     \<and> (\<forall>x\<in>set post. \<not> datetime_less (fst (max_from best xs)) (fst x))"
proof (induction xs arbitrary: best)
  case Nil
  show ?case by (intro exI[of _ "[]"]) simp
next
  case (Cons x xs)
  show ?case
  proof (cases "datetime_less (fst best) (fst x)")
    case True
    let ?m = "max_from x xs"
    have e: "max_from best (x # xs) = ?m" using True by simp
    from Cons.IH[of x] obtain pre post where d: "x # xs = pre @ ?m # post"
      and lt: "\<forall>y\<in>set pre. datetime_less (fst y) (fst ?m)"
      and ge: "\<forall>y\<in>set post. \<not> datetime_less (fst ?m) (fst y)"
      by blast
    have bm: "datetime_less (fst best) (fst ?m)"
    proof (cases pre)
      case Nil
      with d have "?m = x" by auto
      with True show ?thesis by simp
    next
      case (Cons p ps)
      with d have "p = x" by auto
      with Cons lt have "datetime_less (fst x) (fst ?m)" by simp
      with True show ?thesis by (rule datetime_less_trans)
    qed
    have "best # x # xs = (best # pre) @ ?m # post" using d by simp
    moreover have "\<forall>y\<in>set (best # pre). datetime_less (fst y) (fst ?m)"
      using lt bm by simp
    ultimately show ?thesis unfolding e using ge by blast
  next
    case False
    let ?m = "max_from best xs"
    have e: "max_from best (x # xs) = ?m" using False by simp
    from Cons.IH[of best] obtain pre post where d: "best # xs = pre @ ?m # post"
      and lt: "\<forall>y\<in>set pre. datetime_less (fst y) (fst ?m)"
      and ge: "\<forall>y\<in>set post. \<not> datetime_less (fst ?m) (fst y)"
      by blast
    show ?thesis
    proof (cases pre)
      case Nil
      with d have m: "?m = best" and p: "post = xs" by auto
      have "best # x # xs = [] @ ?m # (x # xs)" using m by simp
      moreover have "\<forall>y\<in>set (x # xs). \<not> datetime_less (fst ?m) (fst y)"
        using False ge m p by simp
      ultimately show ?thesis unfolding e by (metis empty_iff empty_set)
    next
      case (Cons p ps)
      with d have pb: "p = best" and r: "xs = ps @ ?m # post" by auto
      from Cons pb lt have bm: "datetime_less (fst best) (fst ?m)" by simp
      have xm: "datetime_less (fst x) (fst ?m)"
        using False bm by (rule datetime_less_le_trans)
      from Cons pb lt have ps: "\<forall>y\<in>set ps. datetime_less (fst y) (fst ?m)" by simp
      have "best # x # xs = (best # x # ps) @ ?m # post" using r by simp
      moreover have "\<forall>y\<in>set (best # x # ps). datetime_less (fst y) (fst ?m)"
        using bm xm ps by simp
      ultimately show ?thesis unfolding e using ge by blast
    qed
  qed
qed

lemma xlsx_links_href:
  "link \<in> set (xlsx_links inside doc) \<Longrightarrow> \<exists>h. get link ''href'' = Some h"
proof (induction inside doc rule: xlsx_links.induct)
  case (1 inside t a cs)
  from "1.prems" consider
    (self) "link = Element t a cs" "attr_contains (Element t a cs) ''href'' ''.xlsx''"
    | (child) c where "c \<in> set cs"
      "link \<in> set (xlsx_links (inside \<or> t = ''li''
          \<and> attr_contains (Element t a cs) ''class'' ''resource-item'') c)"
    by (auto split: if_splits)
  then show ?case
  proof cases
    case self
    then show ?thesis by (auto simp: attr_contains_def split: option.splits)
  next
    case child
    then show ?thesis using "1.IH" by blast
  qed
qed

lemma strptime_midnight:
  "strptime g = Inr d \<Longrightarrow> hour d = 0 \<and> minute d = 0 \<and> second d = 0 \<and> microsecond d = 0"
  by (auto simp: strptime_def Let_def split: if_splits)

lemma links_loop_valid:
  assumes "\<forall>link\<in>set links. (\<exists>h. get link ''href'' = Some h) \<and> date_valid link"
  shows "\<exists>c1. links_loop c acc links = Returns (acc @ concat (map dated_candidate links)) c1
           \<and> emitted c1 = emitted c"
  using assms
proof (induction links arbitrary: c acc)
  case Nil
  show ?case by simp
next
  case (Cons link links)
  then obtain h where h: "get link ''href'' = Some h" and v: "date_valid link"
    and rest: "\<forall>l\<in>set links. (\<exists>h. get l ''href'' = Some h) \<and> date_valid l"
    by auto
  show ?case
  proof (cases "stale h")
    case True
    with h Cons.IH[OF rest, of c acc] show ?thesis
      by (simp add: dated_candidate_def stale_def)
  next
    case False
    show ?thesis
    proof (cases "search_date h")
      case None
      let ?c = "write_log c (Log Warning (''Link '' @ h @ '' does not contain a date'') [])"
      from Cons.IH[OF rest, of ?c acc] h False None show ?thesis
        by (simp add: dated_candidate_def stale_def write_log_def)
    next
      case (Some g)
      with v h False obtain d where d: "strptime g = Inr d"
        by (cases "strptime g") (auto simp: date_valid_def)
      from Cons.IH[OF rest, of c "acc @ [(d, h)]"] h False Some d show ?thesis
        by (simp add: dated_candidate_def stale_def)
    qed
  qed
qed

lemma links_loop_not_stale:
  "links_loop c acc links = Returns dated c1 \<Longrightarrow> \<forall>x\<in>set acc. \<not> stale (snd x) \<Longrightarrow>
     \<forall>x\<in>set dated. \<not> stale (snd x)"
proof (induction links arbitrary: c acc)
  case Nil
  then show ?case by simp
next
  case (Cons link links)
  show ?case
  proof (cases "get link ''href''")
    case None
    with Cons.prems show ?thesis by simp
  next
    case (Some h)
    show ?thesis
    proof (cases "stale h")
      case True
      with Some Cons.prems Cons.IH[of c acc] show ?thesis by (simp add: stale_def)
    next
      case False
      show ?thesis
      proof (cases "search_date h")
        case None
        with Some False Cons.prems
          Cons.IH[of "write_log c (Log Warning (''Link '' @ h @ '' does not contain a date'') [])" acc]
        show ?thesis by (simp add: stale_def)
      next
        case g: (Some g)
        show ?thesis
        proof (cases "strptime g")
          case (Inl e)
          with Some False g Cons.prems show ?thesis by (simp add: stale_def)
        next
          case (Inr d)
          with Some False g Cons.prems Cons.IH[of c "acc @ [(d, h)]"] show ?thesis
            by (simp add: stale_def)
        qed
      qed
    qed
  qed
qed


subsection \<open>The recency selector\<close>

lemmas link_eval = get_most_recent_link_def demo_catalog_def demo_link_def attr_contains_def
  get_def date_at_def isdigit_def strptime_def int_of_digits_def digit_value_def
  days_in_month_def is_leap_def within_30_days_def toordinal_def days_before_year_def
  days_before_month_def datetime_less_def datetime_tuple_def demo_now_def Let_def

lemma dated_candidate_midnight:
  assumes "x \<in> set (dated_candidate link)"
  shows "hour (fst x) = 0 \<and> minute (fst x) = 0 \<and> second (fst x) = 0 \<and> microsecond (fst x) = 0"
proof (cases "get link ''href''")
  case None
  with assms show ?thesis by (simp add: dated_candidate_def)
next
  case (Some h)
  show ?thesis
  proof (cases "search_date h")
    case None
    with Some assms show ?thesis by (simp add: dated_candidate_def split: if_splits)
  next
    case g: (Some g)
    show ?thesis
    proof (cases "strptime g")
      case (Inl e)
      with Some g assms show ?thesis by (simp add: dated_candidate_def split: if_splits)
    next
      case (Inr d)
      with Some g assms have "fst x = d" by (simp add: dated_candidate_def split: if_splits)
      with strptime_midnight[OF Inr] show ?thesis by simp
    qed
  qed
qed

lemma dated_candidates_midnight:
  "x \<in> set (dated_candidates doc) \<Longrightarrow>
     hour (fst x) = 0 \<and> minute (fst x) = 0 \<and> second (fst x) = 0 \<and> microsecond (fst x) = 0"
proof -
  assume "x \<in> set (dated_candidates doc)"
  then obtain link where "x \<in> set (dated_candidate link)"
    by (auto simp: dated_candidates_def)
  then show ?thesis by (rule dated_candidate_midnight)
qed

lemma within_30_days_midnight:
  assumes "hour t = 0" "minute t = 0" "second t = 0" "microsecond t = 0"
  shows "within_30_days now t =
           (if toordinal now \<le> 30 then Inl OverflowError
            else Inr (toordinal now - 30 < toordinal t))"
  using assms by (auto simp: within_30_days_def)

lemma links_loop_candidates:
  assumes "dates_valid doc"
  shows "\<exists>c1. links_loop c [] (xlsx_links False doc) = Returns (dated_candidates doc) c1
           \<and> emitted c1 = emitted c"
proof -
  have "\<forall>link\<in>set (xlsx_links False doc). (\<exists>h. get link ''href'' = Some h) \<and> date_valid link"
    using assms xlsx_links_href by (auto simp: dates_valid_def list_all_iff)
  from links_loop_valid[OF this, of c "[]"] show ?thesis
    by (simp add: dated_candidates_def)
qed

lemma latest_candidate_selected:
  assumes v: "dates_valid doc" and ne: "dated_candidates doc \<noteq> []"
  shows "\<exists>d h pre post c1.
        dated_candidates doc = pre @ (d, h) # post
        \<and> (\<forall>x\<in>set pre. datetime_less (fst x) d)
        \<and> (\<forall>x\<in>set post. \<not> datetime_less d (fst x))
        \<and> emitted c1 = emitted c
        \<and> get_most_recent_link now c doc =
            (if toordinal now \<le> 30 then Raises OverflowError c1
             else if toordinal now - 30 < toordinal d then Returns h c1
             else Raises AssertionError c1)"
proof -
  from links_loop_candidates[OF v, of c] obtain c1
    where l: "links_loop c [] (xlsx_links False doc) = Returns (dated_candidates doc) c1"
      and e: "emitted c1 = emitted c" by blast
  from ne obtain first others where fo: "dated_candidates doc = first # others"
    by (cases "dated_candidates doc") auto
  let ?m = "max_from first others"
  from max_from_first[of first others] obtain pre post
    where d: "first # others = pre @ ?m # post"
      and lt: "\<forall>x\<in>set pre. datetime_less (fst x) (fst ?m)"
      and ge: "\<forall>x\<in>set post. \<not> datetime_less (fst ?m) (fst x)"
    by blast
  have "?m \<in> set (dated_candidates doc)" using d fo by (metis in_set_conv_decomp)
  from within_30_days_midnight[of "fst ?m" now] dated_candidates_midnight[OF this]
  have w: "within_30_days now (fst ?m) =
           (if toordinal now \<le> 30 then Inl OverflowError
            else Inr (toordinal now - 30 < toordinal (fst ?m)))"
    by simp
  have g: "get_most_recent_link now c doc =
            (if toordinal now \<le> 30 then Raises OverflowError c1
             else if toordinal now - 30 < toordinal (fst ?m) then Returns (snd ?m) c1
             else Raises AssertionError c1)"
    by (simp add: get_most_recent_link_def l fo w)
  have "dated_candidates doc = pre @ (fst ?m, snd ?m) # post" using d fo by simp
  with lt ge e g show ?thesis by blast
qed

lemmas candidate_eval = dated_candidates_def dated_candidate_def dates_valid_def date_valid_def
  stale_def demo_catalog_def demo_link_def attr_contains_def get_def date_at_def isdigit_def
  strptime_def int_of_digits_def digit_value_def days_in_month_def is_leap_def Let_def

text \<open>
  Claim C1, as the code has it. For a page whose links that are not stale carry only
  dates of the calendar and at least one of them, the selector returns the href of
  the first dated candidate with the latest date (every candidate before it is
  earlier, none after it is later), and it fails with an assertion error exactly
  when that date lies 30 days or more before the current day. With the dates
  2025-01-15 and 2024-07-02 on 1 February 2025 it returns the link of 2025-01-15,
  which is 17 days old; with 2025-01-20 and 2025-01-15 it returns the link of
  2025-01-20; with 2025-01-02 and 2024-07-02 it raises.
\<close>

theorem selector_returns_latest:
  "(dates_valid doc \<and> dated_candidates doc \<noteq> [] \<longrightarrow>
     (\<exists>d h pre post c1.
        dated_candidates doc = pre @ (d, h) # post
        \<and> (\<forall>x\<in>set pre. datetime_less (fst x) d)
        \<and> (\<forall>x\<in>set post. \<not> datetime_less d (fst x))
        \<and> emitted c1 = emitted c
        \<and> get_most_recent_link now c doc =
            (if toordinal now \<le> 30 then Raises OverflowError c1
             else if toordinal now - 30 < toordinal d then Returns h c1
             else Raises AssertionError c1)))
   \<and> get_most_recent_link demo_now c
        (demo_catalog [''/files/reg_2025.01.15.xlsx'', ''/files/reg_2024.07.02.xlsx''])
      = Returns ''/files/reg_2025.01.15.xlsx'' c
   \<and> get_most_recent_link demo_now c
        (demo_catalog [''/files/reg_2025.01.20.xlsx'', ''/files/reg_2025.01.15.xlsx''])
      = Returns ''/files/reg_2025.01.20.xlsx'' c
   \<and> get_most_recent_link demo_now c
        (demo_catalog [''/files/reg_2025.01.02.xlsx'', ''/files/reg_2024.07.02.xlsx''])
      = Raises AssertionError c"
proof -
  have a: "get_most_recent_link demo_now c
        (demo_catalog [''/files/reg_2025.01.15.xlsx'', ''/files/reg_2024.07.02.xlsx''])
      = Returns ''/files/reg_2025.01.15.xlsx'' c"
    by (simp add: link_eval)
  have b: "get_most_recent_link demo_now c
        (demo_catalog [''/files/reg_2025.01.20.xlsx'', ''/files/reg_2025.01.15.xlsx''])
      = Returns ''/files/reg_2025.01.20.xlsx'' c"
    by (simp add: link_eval)
  have d: "get_most_recent_link demo_now c
        (demo_catalog [''/files/reg_2025.01.02.xlsx'', ''/files/reg_2024.07.02.xlsx''])
      = Raises AssertionError c"
    by (simp add: link_eval)
  from latest_candidate_selected[of doc c now] a b d show ?thesis by blast
qed

theorem selector_returns_latest_witness:
  "dates_valid (demo_catalog [''/files/reg_2024.12.30.xlsx'', ''/files/reg_2025.01.20.xlsx''])
   \<and> dated_candidates (demo_catalog [''/files/reg_2024.12.30.xlsx'', ''/files/reg_2025.01.20.xlsx''])
       = [(\<lparr>year = 2024, month = 12, day = 30, hour = 0, minute = 0, second = 0,
              microsecond = 0\<rparr>, ''/files/reg_2024.12.30.xlsx''),
          (\<lparr>year = 2025, month = 1, day = 20, hour = 0, minute = 0, second = 0,
              microsecond = 0\<rparr>, ''/files/reg_2025.01.20.xlsx'')]
   \<and> (\<exists>d h pre post c1.
        dated_candidates (demo_catalog [''/files/reg_2024.12.30.xlsx'', ''/files/reg_2025.01.20.xlsx''])
          = pre @ (d, h) # post
        \<and> (\<forall>x\<in>set pre. datetime_less (fst x) d)
        \<and> (\<forall>x\<in>set post. \<not> datetime_less d (fst x))
        \<and> emitted c1 = emitted demo_context
        \<and> get_most_recent_link demo_now demo_context
             (demo_catalog [''/files/reg_2024.12.30.xlsx'', ''/files/reg_2025.01.20.xlsx''])
           = (if toordinal demo_now \<le> 30 then Raises OverflowError c1
              else if toordinal demo_now - 30 < toordinal d then Returns h c1
              else Raises AssertionError c1))"
proof -
  let ?doc = "demo_catalog [''/files/reg_2024.12.30.xlsx'', ''/files/reg_2025.01.20.xlsx'']"
  have v: "dates_valid ?doc" by (simp add: candidate_eval)
  have c: "dated_candidates ?doc
       = [(\<lparr>year = 2024, month = 12, day = 30, hour = 0, minute = 0, second = 0,
              microsecond = 0\<rparr>, ''/files/reg_2024.12.30.xlsx''),
          (\<lparr>year = 2025, month = 1, day = 20, hour = 0, minute = 0, second = 0,
              microsecond = 0\<rparr>, ''/files/reg_2025.01.20.xlsx'')]"
    by (simp add: candidate_eval)
  then have ne: "dated_candidates ?doc \<noteq> []" by simp
  from selector_returns_latest[of ?doc demo_context demo_now] v ne
  have "\<exists>d h pre post c1.
        dated_candidates ?doc = pre @ (d, h) # post
        \<and> (\<forall>x\<in>set pre. datetime_less (fst x) d)
        \<and> (\<forall>x\<in>set post. \<not> datetime_less d (fst x))
        \<and> emitted c1 = emitted demo_context
        \<and> get_most_recent_link demo_now demo_context ?doc
           = (if toordinal demo_now \<le> 30 then Raises OverflowError c1
              else if toordinal demo_now - 30 < toordinal d then Returns h c1
              else Raises AssertionError c1)"
    by blast
  with v c show ?thesis by blast
qed

text \<open>
  Claim C1 as stated fails in its first example: with the dates 2025-01-15 and
  2024-07-02 on 1 February 2025 the selector raises nothing, the latest date being
  17 days old; it returns the link of 2025-01-15.
\<close>

theorem selector_first_example_counterexample:
  "get_most_recent_link demo_now demo_context
     (demo_catalog [''/files/reg_2025.01.15.xlsx'', ''/files/reg_2024.07.02.xlsx''])
   = Returns ''/files/reg_2025.01.15.xlsx'' demo_context
   \<and> toordinal demo_now
       - toordinal \<lparr>year = 2025, month = 1, day = 15, hour = 0, minute = 0, second = 0,
                    microsecond = 0\<rparr> = 17
   \<and> get_most_recent_link demo_now demo_context
       (demo_catalog [''/files/reg_2025.01.15.xlsx'', ''/files/reg_2024.07.02.xlsx''])
     \<noteq> Raises AssertionError demo_context"
  by (simp add: link_eval)


lemma max_from_mem: "max_from best xs \<in> set (best # xs)"
  using max_from_first[of best xs] by (metis in_set_conv_decomp)

text \<open>
  Claim C5. Whatever the page and the current time, an href the selector returns
  has neither the stale marker \<open>17.06.2024\<close> nor the 2019 path pattern: such a
  link is never selected, even when the date in it is the latest of all.
\<close>

theorem stale_link_never_selected:
  assumes "get_most_recent_link now c doc = Returns href c'"
  shows "\<not> contains href ''17.06.2024'' \<and> \<not> search_2019 href"
proof (cases "links_loop c [] (xlsx_links False doc)")
  case (Raises e c1)
  with assms show ?thesis by (simp add: get_most_recent_link_def)
next
  case (Returns dated c1)
  from links_loop_not_stale[OF Returns] have ns: "\<forall>x\<in>set dated. \<not> stale (snd x)" by simp
  show ?thesis
  proof (cases dated)
    case Nil
    with Returns assms show ?thesis by (simp add: get_most_recent_link_def)
  next
    case (Cons first others)
    with Returns assms have "href = snd (max_from first others)"
      by (auto simp: get_most_recent_link_def Let_def split: sum.splits if_splits)
    moreover have "max_from first others \<in> set dated"
      using max_from_mem[of first others] Cons by simp
    ultimately have "\<not> stale href" using ns by blast
    then show ?thesis by (simp add: stale_def)
  qed
qed

theorem stale_link_never_selected_witness:
  "get_most_recent_link demo_now demo_context
     (demo_catalog [''/files/reg_2025.01.20.xlsx'', ''/resources/2019-05/reg_2025.01.31.xlsx'',
                    ''/17.06.2024/reg_2025.01.30.xlsx''])
   = Returns ''/files/reg_2025.01.20.xlsx'' demo_context
   \<and> contains ''/17.06.2024/reg_2025.01.30.xlsx'' ''17.06.2024''
   \<and> search_2019 ''/resources/2019-05/reg_2025.01.31.xlsx''
   \<and> search_date ''/17.06.2024/reg_2025.01.30.xlsx'' = Some ''2025.01.30''
   \<and> search_date ''/resources/2019-05/reg_2025.01.31.xlsx'' = Some ''2025.01.31''
   \<and> \<not> contains ''/files/reg_2025.01.20.xlsx'' ''17.06.2024''
   \<and> \<not> search_2019 ''/files/reg_2025.01.20.xlsx''"
proof -
  have r: "get_most_recent_link demo_now demo_context
     (demo_catalog [''/files/reg_2025.01.20.xlsx'', ''/resources/2019-05/reg_2025.01.31.xlsx'',
                    ''/17.06.2024/reg_2025.01.30.xlsx''])
   = Returns ''/files/reg_2025.01.20.xlsx'' demo_context"
    by (simp add: link_eval)
  have s: "contains ''/17.06.2024/reg_2025.01.30.xlsx'' ''17.06.2024''"
    "search_2019 ''/resources/2019-05/reg_2025.01.31.xlsx''"
    "search_date ''/17.06.2024/reg_2025.01.30.xlsx'' = Some ''2025.01.30''"
    "search_date ''/resources/2019-05/reg_2025.01.31.xlsx'' = Some ''2025.01.31''"
    by (simp_all add: isdigit_def date_at_def)
  from stale_link_never_selected[OF r] r s show ?thesis by simp
qed

subsection \<open>The resource locator\<close>

lemma resource_loop_last:
  "resource_loop urljoin url r anchors =
     (if anchors = [] then r
      else Some (urljoin url (case get (last anchors) ''href'' of None \<Rightarrow> [] | Some h \<Rightarrow> h)))"
  by (induction anchors arbitrary: r) (auto simp: Let_def)

lemma resource_anchors_iff:
  "x \<in> set (resource_anchors doc) \<longleftrightarrow>
     (\<exists>li\<in>set (descendants doc). tag li = ''li'' \<and> get li ''class'' = Some ''resource-item''
        \<and> x \<in> set (children li) \<and> tag x = ''a'')"
  by (auto simp: resource_anchors_def)

lemma action_anchors_iff:
  "y \<in> set (action_anchors page) \<longleftrightarrow>
     (\<exists>d\<in>set (descendants page). tag d = ''div'' \<and> get d ''class'' = Some ''actions''
        \<and> y \<in> set (descendants d) \<and> tag y = ''a'')"
  by (auto simp: action_anchors_def)

lemma read_ckan_no_url:
  "dataset_url c = None \<Longrightarrow> read_ckan urljoin c = Inl (RuntimeError ''No dataset url'')"
  by (simp add: read_ckan_def)

lemma read_ckan_no_resource:
  "dataset_url c = Some url \<Longrightarrow> pages c url = Some doc \<Longrightarrow> resource_anchors doc = [] \<Longrightarrow>
     read_ckan urljoin c = Inl (RuntimeError ''No resource URL on data catalog page!'')"
  by (simp add: read_ckan_def)

lemma read_ckan_resource:
  assumes "dataset_url c = Some url" and "pages c url = Some doc"
    and "resource_anchors doc \<noteq> []"
    and "pages c (urljoin url (case get (last (resource_anchors doc)) ''href'' of
                                 None \<Rightarrow> [] | Some h \<Rightarrow> h)) = Some page"
  shows "read_ckan urljoin c =
           (case action_anchors page of
              [] \<Rightarrow> Inl (RuntimeError ''No data URL on data resource page!'')
            | action_anchor # _ \<Rightarrow> Inr (get action_anchor ''href''))"
  using assms by (simp add: read_ckan_def resource_loop_last)

text \<open>
  Claim C6, as the code has it. The resource anchors of the catalog page are the
  \<open>a\<close> children of the \<open>li\<close> elements below the root whose class is exactly
  \<open>resource-item\<close>; the action anchors of the resource page are the \<open>a\<close> elements
  below a \<open>div\<close> whose class is exactly \<open>actions\<close>. \<open>read_ckan\<close> fails when the
  catalog page has no resource anchor. It does not ask for exactly one: of several
  resource anchors it follows the last. It fetches the page at the href of that
  anchor (the empty string for an anchor without href), resolved against the catalog
  URL; it fails when that page has no action anchor and otherwise returns the href
  of its first action anchor. Without a dataset URL it fails at once.
\<close>

theorem resource_locator:
  "(x \<in> set (resource_anchors doc) \<longleftrightarrow>
      (\<exists>li\<in>set (descendants doc). tag li = ''li'' \<and> get li ''class'' = Some ''resource-item''
         \<and> x \<in> set (children li) \<and> tag x = ''a''))
   \<and> (y \<in> set (action_anchors page) \<longleftrightarrow>
      (\<exists>d\<in>set (descendants page). tag d = ''div'' \<and> get d ''class'' = Some ''actions''
         \<and> y \<in> set (descendants d) \<and> tag y = ''a''))
   \<and> (dataset_url c = None \<longrightarrow> read_ckan urljoin c = Inl (RuntimeError ''No dataset url''))
   \<and> (dataset_url c = Some url \<and> pages c url = Some doc \<longrightarrow>
        (resource_anchors doc = [] \<longrightarrow>
           read_ckan urljoin c = Inl (RuntimeError ''No resource URL on data catalog page!''))
        \<and> (resource_anchors doc \<noteq> []
            \<and> pages c (urljoin url (case get (last (resource_anchors doc)) ''href'' of
                                       None \<Rightarrow> [] | Some h \<Rightarrow> h)) = Some page \<longrightarrow>
            (action_anchors page = [] \<longrightarrow>
               read_ckan urljoin c = Inl (RuntimeError ''No data URL on data resource page!''))
            \<and> (action_anchors page \<noteq> [] \<longrightarrow>
               read_ckan urljoin c = Inr (get (hd (action_anchors page)) ''href''))))"
proof -
  have r: "read_ckan urljoin c = Inl (RuntimeError ''No data URL on data resource page!'')"
    if "dataset_url c = Some url" "pages c url = Some doc" "resource_anchors doc \<noteq> []"
      "pages c (urljoin url (case get (last (resource_anchors doc)) ''href'' of
                               None \<Rightarrow> [] | Some h \<Rightarrow> h)) = Some page"
      "action_anchors page = []"
    using read_ckan_resource[of c url doc urljoin page] that by simp
  have f: "read_ckan urljoin c = Inr (get (hd (action_anchors page)) ''href'')"
    if "dataset_url c = Some url" "pages c url = Some doc" "resource_anchors doc \<noteq> []"
      "pages c (urljoin url (case get (last (resource_anchors doc)) ''href'' of
                               None \<Rightarrow> [] | Some h \<Rightarrow> h)) = Some page"
      "action_anchors page \<noteq> []"
    using read_ckan_resource[of c url doc urljoin page] that
    by (cases "action_anchors page") simp_all
  from resource_anchors_iff[of x doc] action_anchors_iff[of y page]
    read_ckan_no_url[of c urljoin] read_ckan_no_resource[of c url doc urljoin] r f
  show ?thesis by blast
qed

theorem resource_locator_witness:
  "resource_anchors demo_dataset_page
     = [Element ''a'' [(''href'', ''/dataset/companies/resource/1'')] []]
   \<and> action_anchors demo_resource_page
     = [Element ''a'' [(''href'', ''https://dataset.gov.md/company.xlsx'')] [],
        Element ''a'' [(''href'', ''https://dataset.gov.md/other'')] []]
   \<and> read_ckan demo_urljoin demo_ckan_context = Inr (Some ''https://dataset.gov.md/company.xlsx'')
   \<and> resource_anchors demo_dataset_page_two
     = [Element ''a'' [(''href'', ''/dataset/companies/resource/0'')] [],
        Element ''a'' [(''href'', ''/dataset/companies/resource/1'')] []]
   \<and> read_ckan demo_urljoin demo_ckan_context_two
     = Inr (Some ''https://dataset.gov.md/company.xlsx'')
   \<and> resource_anchors demo_resource_page = []
   \<and> read_ckan demo_urljoin (demo_ckan_context\<lparr>pages := (\<lambda>url. Some demo_resource_page)\<rparr>)
       = Inl (RuntimeError ''No resource URL on data catalog page!'')
   \<and> action_anchors demo_dataset_page = []
   \<and> read_ckan demo_urljoin (demo_ckan_context\<lparr>pages := (\<lambda>url. Some demo_dataset_page)\<rparr>)
       = Inl (RuntimeError ''No data URL on data resource page!'')
   \<and> read_ckan demo_urljoin (demo_ckan_context\<lparr>dataset_url := None\<rparr>)
       = Inl (RuntimeError ''No dataset url'')"
proof -
  let ?url = "''https://dataset.gov.md/dataset/companies''"
  let ?a0 = "Element ''a'' [(''href'', ''/dataset/companies/resource/0'')] []"
  let ?a1 = "Element ''a'' [(''href'', ''/dataset/companies/resource/1'')] []"
  have u: "dataset_url demo_ckan_context = Some ?url"
    "dataset_url demo_ckan_context_two = Some ?url"
    by (simp_all add: demo_ckan_context_def demo_ckan_context_two_def)
  have p1: "pages demo_ckan_context ?url = Some demo_dataset_page"
    "pages demo_ckan_context_two ?url = Some demo_dataset_page_two"
    by (simp_all add: demo_ckan_context_def demo_ckan_context_two_def)
  have ra: "resource_anchors demo_dataset_page = [?a1]"
    by (simp add: resource_anchors_def demo_dataset_page_def get_def)
  have ra2: "resource_anchors demo_dataset_page_two = [?a0, ?a1]"
    by (simp add: resource_anchors_def demo_dataset_page_two_def get_def)
  have ra0: "resource_anchors demo_resource_page = []"
    by (simp add: resource_anchors_def demo_resource_page_def get_def)
  have j: "demo_urljoin ?url (case get ?a1 ''href'' of None \<Rightarrow> [] | Some h \<Rightarrow> h)
       = ''https://dataset.gov.md/dataset/companies/resource/1''"
    by (simp add: demo_urljoin_def get_def)
  have p2: "pages demo_ckan_context ''https://dataset.gov.md/dataset/companies/resource/1''
       = Some demo_resource_page"
    "pages demo_ckan_context_two ''https://dataset.gov.md/dataset/companies/resource/1''
       = Some demo_resource_page"
    by (simp_all add: demo_ckan_context_def demo_ckan_context_two_def)
  have aa: "action_anchors demo_resource_page =
      [Element ''a'' [(''href'', ''https://dataset.gov.md/company.xlsx'')] [],
       Element ''a'' [(''href'', ''https://dataset.gov.md/other'')] []]"
    by (simp add: action_anchors_def demo_resource_page_def get_def)
  have aa0: "action_anchors demo_dataset_page = []"
    by (simp add: action_anchors_def demo_dataset_page_def get_def)
  have r: "read_ckan demo_urljoin demo_ckan_context = Inr (Some ''https://dataset.gov.md/company.xlsx'')"
    using resource_locator[of ?a1 demo_dataset_page ?a1 demo_resource_page demo_ckan_context
        demo_urljoin ?url]
      u p1 ra j p2 aa
    by (simp add: get_def)
  have r2: "read_ckan demo_urljoin demo_ckan_context_two
      = Inr (Some ''https://dataset.gov.md/company.xlsx'')"
    using resource_locator[of ?a1 demo_dataset_page_two ?a1 demo_resource_page
        demo_ckan_context_two demo_urljoin ?url]
      u p1 ra2 j p2 aa
    by (simp add: get_def)
  have n1: "read_ckan demo_urljoin (demo_ckan_context\<lparr>pages := (\<lambda>url. Some demo_resource_page)\<rparr>)
       = Inl (RuntimeError ''No resource URL on data catalog page!'')"
    using resource_locator[of ?a1 demo_resource_page ?a1 demo_resource_page
        "demo_ckan_context\<lparr>pages := (\<lambda>url. Some demo_resource_page)\<rparr>" demo_urljoin ?url]
      u ra0
    by simp
  have n2: "read_ckan demo_urljoin (demo_ckan_context\<lparr>pages := (\<lambda>url. Some demo_dataset_page)\<rparr>)
       = Inl (RuntimeError ''No data URL on data resource page!'')"
    using resource_locator[of ?a1 demo_dataset_page ?a1 demo_dataset_page
        "demo_ckan_context\<lparr>pages := (\<lambda>url. Some demo_dataset_page)\<rparr>" demo_urljoin ?url]
      u ra aa0
    by simp
  have n: "read_ckan demo_urljoin (demo_ckan_context\<lparr>dataset_url := None\<rparr>)
       = Inl (RuntimeError ''No dataset url'')"
    using resource_locator[of ?a1 demo_dataset_page ?a1 demo_resource_page
        "demo_ckan_context\<lparr>dataset_url := None\<rparr>" demo_urljoin ?url]
    by simp
  from ra aa r ra2 r2 ra0 n1 aa0 n2 n show ?thesis by simp
qed

text \<open>
  Claim C6 as stated fails: the locator does not locate exactly one anchor. On a
  catalog page with two resource items it finds two resource anchors and does not
  fail; it follows the second one and returns the file of that resource page, not
  the older file the first one leads to.
\<close>

theorem two_resource_anchors_counterexample:
  "resource_anchors demo_dataset_page_two
     = [Element ''a'' [(''href'', ''/dataset/companies/resource/0'')] [],
        Element ''a'' [(''href'', ''/dataset/companies/resource/1'')] []]
   \<and> \<not> exactly_one_anchor demo_dataset_page_two
   \<and> read_ckan demo_urljoin demo_ckan_context_two
     = Inr (Some ''https://dataset.gov.md/company.xlsx'')"
proof -
  have ra2: "resource_anchors demo_dataset_page_two
     = [Element ''a'' [(''href'', ''/dataset/companies/resource/0'')] [],
        Element ''a'' [(''href'', ''/dataset/companies/resource/1'')] []]"
    by (simp add: resource_anchors_def demo_dataset_page_two_def get_def)
  have aa: "action_anchors demo_resource_page =
      [Element ''a'' [(''href'', ''https://dataset.gov.md/company.xlsx'')] [],
       Element ''a'' [(''href'', ''https://dataset.gov.md/other'')] []]"
    by (simp add: action_anchors_def demo_resource_page_def get_def)
  have r: "read_ckan demo_urljoin demo_ckan_context_two
     = Inr (Some ''https://dataset.gov.md/company.xlsx'')"
    by (simp add: read_ckan_def demo_ckan_context_two_def ra2 aa demo_urljoin_def get_def)
  from ra2 r show ?thesis by (simp add: exactly_one_anchor_def)
qed


end
